theory Spec2Isabelle
  imports Main
begin

section \<open>Data model of the paging simulator (proyecto\_memoria.py)\<close>

text \<open>
  The simulator is the Python class \<open>SimuladorOS\<close>. Its mutable attributes become the
  fields of the record \<open>sim\<close>; every method becomes a function that takes the state and
  returns a \<open>result\<close>: either \<open>Ok v s'\<close> (the returned value and the state afterwards) or
  \<open>Raise e s'\<close> (the Python exception and the state at the moment it is raised, since
  Python does not roll back the assignments already made).

  Conventions of the embedding:
  \<^item> PCB objects are shared by reference between the queues and the running slot. They
    live in the store \<open>procs\<close>, addressed by their PID (PIDs are handed out once by
    \<open>contador_pid\<close>), and the queues hold PIDs.
  \<^item> \<open>num_marcos_ram\<close> and \<open>num_marcos_swap\<close> are the lengths of the lists \<open>ram\<close> and
    \<open>swap\<close>: the source creates both lists with exactly that length and never
    resizes them.
  \<^item> \<open>log\<close> only prints and appends to \<open>log_events\<close>, which no method reads; it is
    left out.
  \<^item> The draws of \<open>random\<close> are arguments supplied by the environment: whether a process
    arrives in a cycle (the comparison with \<open>arrival_prob\<close>), and the natural numbers
    from which \<open>randint\<close> selects its value.
  \<^item> Sizes given in KB by the configuration are natural numbers; the requested size of
    a process and page indices given by a caller are Python integers (\<open>int\<close>).
\<close>

datatype error = ZeroDivisionError | IndexError | KeyError | ValueError

datatype estado = NUEVO | LISTO | EJECUTANDO | ESPERANDO | TERMINADO

record frame =
  fr_pid :: nat
  fr_page :: int
  loaded_time :: nat
  fr_last_access :: nat
  referenced :: bool

record slot =
  sl_pid :: nat
  sl_page :: int
  stored_time :: nat

record pte =
  present :: bool
  frame :: "nat option"
  swap_slot :: "nat option"
  pte_last_access :: nat

record pcb =
  pid :: nat
  nombre :: string
  tamano_kb :: int
  prioridad :: int
  instrucciones_totales :: int
  instrucciones_restantes :: int
  estado :: estado
  paginas :: int
  tabla_paginas :: "pte list"
  motivo_terminacion :: string

text \<open>The TLB: an \<open>OrderedDict\<close> from (pid, page) to the frame, oldest entry first.\<close>

record tlb_cache =
  tlb_size :: int
  entries :: "((nat \<times> int) \<times> nat option) list"

record sim =
  ram_kb :: nat
  swap_kb :: nat
  page_kb :: nat
  replacement_algo :: string
  max_rand_mem :: int
  max_rand_instr :: int
  ram :: "frame option list"
  free_frames :: "nat list"
  swap :: "slot option list"
  free_swap_slots :: "nat list"
  fifo_queue :: "nat list"
  clock_pointer :: nat
  procs :: "nat \<Rightarrow> pcb"
  cola_listos :: "nat list"
  cola_bloqueados :: "nat list"
  procesos_terminados :: "nat list"
  proceso_actual :: "nat option"
  contador_pid :: nat
  tlb :: "tlb_cache option"
  total_accesos :: nat
  total_fallos :: nat
  swap_ins :: nat
  swap_outs :: nat
  ticks :: nat
  access_clock :: nat

datatype 'a result = Raise error sim | Ok 'a sim

definition num_marcos_ram :: "sim \<Rightarrow> nat" where
  "num_marcos_ram s = length (ram s)"

definition num_marcos_swap :: "sim \<Rightarrow> nat" where
  "num_marcos_swap s = length (swap s)"

subsection \<open>Strings: \<open>str.upper\<close> on ASCII letters\<close>

definition upper_char :: "char \<Rightarrow> char" where
  "upper_char c =
     (let n = (of_char c :: nat)
      in if 97 \<le> n \<and> n \<le> 122 then char_of (n - 32) else c)"

definition upper :: "string \<Rightarrow> string" where
  "upper cs = map upper_char cs"

subsection \<open>Page tables\<close>

text \<open>
  \<open>tabla_paginas\<close> is a dict whose keys are \<open>range(paginas)\<close>; entry \<open>i\<close> of the list
  is the value at key \<open>i\<close>. \<open>pt_get\<close> is \<open>dict.get\<close>: any other integer has no entry.
\<close>

definition pt_get :: "pte list \<Rightarrow> int \<Rightarrow> pte option" where
  "pt_get t i = (if 0 \<le> i \<and> i < int (length t) then Some (t ! nat i) else None)"

definition pte_vacia :: pte where
  "pte_vacia = \<lparr>present = False, frame = None, swap_slot = None, pte_last_access = 0\<rparr>"

text \<open>Update of the entry at key \<open>i\<close> of the table of process \<open>r\<close> (the key exists).\<close>

definition upd_pte :: "nat \<Rightarrow> int \<Rightarrow> (pte \<Rightarrow> pte) \<Rightarrow> sim \<Rightarrow> sim" where
  "upd_pte r i g s =
     s\<lparr>procs := (procs s)
         (r := (procs s r)\<lparr>tabla_paginas :=
                  (tabla_paginas (procs s r))[nat i := g (tabla_paginas (procs s r) ! nat i)]\<rparr>)\<rparr>"

definition pt_has :: "sim \<Rightarrow> nat \<Rightarrow> int \<Rightarrow> bool" where
  "pt_has s r i = (pt_get (tabla_paginas (procs s r)) i \<noteq> None)"

subsection \<open>Construction\<close>

definition pcb_vacio :: pcb where
  "pcb_vacio = \<lparr>pid = 0, nombre = [], tamano_kb = 0, prioridad = 0,
     instrucciones_totales = 0, instrucciones_restantes = 0, estado = NUEVO,
     paginas = 0, tabla_paginas = [], motivo_terminacion = []\<rparr>"

text \<open>
  \<open>SimuladorOS.__init__\<close>. The two floor divisions by \<open>page_kb\<close> raise
  \<open>ZeroDivisionError\<close> when the page size is 0.
\<close>

definition init_sim :: "nat \<Rightarrow> nat \<Rightarrow> nat \<Rightarrow> string \<Rightarrow> bool \<Rightarrow> int \<Rightarrow> int \<Rightarrow> int \<Rightarrow> error + sim" where
  "init_sim ramkb swapkb pagekb algo tlb_on tlbsz maxmem maxinstr =
     (if pagekb = 0 then Inl ZeroDivisionError
      else Inr \<lparr>ram_kb = ramkb, swap_kb = swapkb, page_kb = pagekb,
        replacement_algo = upper algo,
        max_rand_mem = maxmem, max_rand_instr = maxinstr,
        ram = replicate (ramkb div pagekb) None,
        free_frames = [0..<ramkb div pagekb],
        swap = replicate (swapkb div pagekb) None,
        free_swap_slots = [0..<swapkb div pagekb],
        fifo_queue = [], clock_pointer = 0,
        procs = (\<lambda>_. pcb_vacio),
        cola_listos = [], cola_bloqueados = [], procesos_terminados = [],
        proceso_actual = None, contador_pid = 1,
        tlb = (if tlb_on then Some \<lparr>tlb_size = tlbsz, entries = []\<rparr> else None),
        total_accesos = 0, total_fallos = 0, swap_ins = 0, swap_outs = 0,
        ticks = 0, access_clock = 0\<rparr>)"

subsection \<open>The TLB\<close>

text \<open>\<open>TLB.lookup\<close>: a present key is moved to the end and its value returned.\<close>

definition tlb_lookup :: "tlb_cache \<Rightarrow> nat \<times> int \<Rightarrow> nat option \<times> tlb_cache" where
  "tlb_lookup t k =
     (case map_of (entries t) k of
        None \<Rightarrow> (None, t)
      | Some fr \<Rightarrow> (fr, t\<lparr>entries := filter (\<lambda>e. fst e \<noteq> k) (entries t) @ [(k, fr)]\<rparr>))"

text \<open>
  \<open>TLB.add\<close>: a present key is removed first; otherwise, when the cache is full, the
  oldest entry is dropped (\<open>popitem\<close> raises \<open>KeyError\<close> on an empty dict); then the
  entry is appended.
\<close>

definition tlb_add :: "tlb_cache \<Rightarrow> nat \<times> int \<Rightarrow> nat option \<Rightarrow> tlb_cache option" where
  "tlb_add t k fr =
     (if k \<in> fst ` set (entries t)
      then Some (t\<lparr>entries := filter (\<lambda>e. fst e \<noteq> k) (entries t) @ [(k, fr)]\<rparr>)
      else if int (length (entries t)) \<ge> tlb_size t
      then (case entries t of
              [] \<Rightarrow> None
            | _ # rest \<Rightarrow> Some (t\<lparr>entries := rest @ [(k, fr)]\<rparr>))
      else Some (t\<lparr>entries := entries t @ [(k, fr)]\<rparr>))"

definition tlb_invalidate_pid :: "tlb_cache \<Rightarrow> nat \<Rightarrow> tlb_cache" where
  "tlb_invalidate_pid t p = t\<lparr>entries := filter (\<lambda>e. fst (fst e) \<noteq> p) (entries t)\<rparr>"

text \<open>The step \<open>if self.tlb: self.tlb.add(pid, page, frame)\<close> of the engine.\<close>

definition tlb_add_step :: "nat \<Rightarrow> int \<Rightarrow> nat option \<Rightarrow> sim \<Rightarrow> unit result" where
  "tlb_add_step r i fr s =
     (case tlb s of
        None \<Rightarrow> Ok () s
      | Some t \<Rightarrow> (case tlb_add t (r, i) fr of
                     None \<Rightarrow> Raise KeyError s
                   | Some t' \<Rightarrow> Ok () (s\<lparr>tlb := Some t'\<rparr>)))"

subsection \<open>Lookup of a PCB by PID\<close>

definition find_pcb_by_pid :: "sim \<Rightarrow> nat \<Rightarrow> nat option" where
  "find_pcb_by_pid s p =
     (if proceso_actual s = Some p then Some p
      else if p \<in> set (cola_listos s) then Some p
      else if p \<in> set (cola_bloqueados s) then Some p
      else if p \<in> set (procesos_terminados s) then Some p
      else None)"

subsection \<open>Placing a page, evicting a frame, choosing a victim\<close>

definition place_page_in_frame :: "nat \<Rightarrow> int \<Rightarrow> nat \<Rightarrow> sim \<Rightarrow> unit result" where
  "place_page_in_frame r pagina frame_index s =
     (if frame_index \<ge> length (ram s) then Raise IndexError s
      else
        let s1 = s\<lparr>ram := (ram s)[frame_index := Some \<lparr>fr_pid = r, fr_page = pagina,
                      loaded_time = ticks s, fr_last_access = ticks s, referenced = True\<rparr>]\<rparr>
        in if \<not> pt_has s1 r pagina then Raise KeyError s1
           else
             let s2 = upd_pte r pagina (\<lambda>e. e\<lparr>present := True, frame := Some frame_index,
                         swap_slot := None, pte_last_access := ticks s1\<rparr>) s1
             in if replacement_algo s2 = ''FIFO''
                then Ok () (s2\<lparr>fifo_queue := fifo_queue s2 @ [frame_index]\<rparr>)
                else Ok () s2)"

definition swap_out_frame :: "nat \<Rightarrow> sim \<Rightarrow> nat option result" where
  "swap_out_frame frame_index s =
     (if frame_index \<ge> length (ram s) then Raise IndexError s
      else case ram s ! frame_index of
        None \<Rightarrow> Ok None s
      | Some content \<Rightarrow>
         (case free_swap_slots s of
            [] \<Rightarrow> Ok None s
          | slot # rest \<Rightarrow>
             let s1 = s\<lparr>free_swap_slots := rest\<rparr>
             in if slot \<ge> length (swap s1) then Raise IndexError s1
                else
                  let s2 = s1\<lparr>swap := (swap s1)[slot := Some \<lparr>sl_pid = fr_pid content,
                                sl_page = fr_page content, stored_time = ticks s1\<rparr>]\<rparr>
                  in if find_pcb_by_pid s2 (fr_pid content) \<noteq> None
                        \<and> \<not> pt_has s2 (fr_pid content) (fr_page content)
                     then Raise KeyError s2
                     else
                       let s3 = (if find_pcb_by_pid s2 (fr_pid content) \<noteq> None
                                 then upd_pte (fr_pid content) (fr_page content)
                                        (\<lambda>e. e\<lparr>present := False, frame := None,
                                           swap_slot := Some slot,
                                           pte_last_access := ticks s2\<rparr>) s2
                                 else s2)
                       in Ok (Some slot)
                            (s3\<lparr>ram := (ram s3)[frame_index := None],
                                fifo_queue := remove1 frame_index (fifo_queue s3),
                                free_frames := free_frames s3 @ [frame_index],
                                swap_outs := swap_outs s3 + 1\<rparr>)))"

text \<open>The LRU scan: \<open>for i, f in enumerate(self.ram)\<close> with the running minimum.\<close>

fun lru_scan :: "frame option list \<Rightarrow> nat \<Rightarrow> (nat \<times> nat) option \<Rightarrow> (nat \<times> nat) option" where
  "lru_scan [] i best = best"
| "lru_scan (None # fs) i best = lru_scan fs (Suc i) best"
| "lru_scan (Some f # fs) i best =
     (case best of
        None \<Rightarrow> lru_scan fs (Suc i) (Some (i, fr_last_access f))
      | Some (oldest, oldest_time) \<Rightarrow>
          if fr_last_access f < oldest_time
          then lru_scan fs (Suc i) (Some (i, fr_last_access f))
          else lru_scan fs (Suc i) best)"

text \<open>
  The CLOCK sweep: the first argument is the number of scans left (\<open>n - scans\<close>);
  inside the loop \<open>n > 0\<close>. After the loop the source takes \<open>clock_pointer % n\<close>
  once more.
\<close>

fun clock_scan :: "nat \<Rightarrow> sim \<Rightarrow> nat option result" where
  "clock_scan 0 s =
     (let n = num_marcos_ram s
      in if n = 0 then Raise ZeroDivisionError s
         else Ok (Some (clock_pointer s mod n))
                 (s\<lparr>clock_pointer := (clock_pointer s mod n + 1) mod n\<rparr>))"
| "clock_scan (Suc k) s =
     (let n = num_marcos_ram s; fr = clock_pointer s mod n
      in case ram s ! fr of
           None \<Rightarrow> Ok (Some fr) (s\<lparr>clock_pointer := (clock_pointer s + 1) mod n\<rparr>)
         | Some f \<Rightarrow>
             if \<not> referenced f
             then Ok (Some fr) (s\<lparr>clock_pointer := (fr + 1) mod n\<rparr>)
             else clock_scan k
                    (s\<lparr>ram := (ram s)[fr := Some (f\<lparr>referenced := False\<rparr>)],
                       clock_pointer := (clock_pointer s + 1) mod n\<rparr>))"

definition select_victim_frame :: "sim \<Rightarrow> nat option result" where
  "select_victim_frame s =
     (if replacement_algo s = ''FIFO'' then
        (case fifo_queue s of
           [] \<Rightarrow> Ok None s
         | f # rest \<Rightarrow> Ok (Some f) (s\<lparr>fifo_queue := rest\<rparr>))
      else if replacement_algo s = ''LRU'' then
        Ok (map_option fst (lru_scan (ram s) 0 None)) s
      else if replacement_algo s = ''CLOCK'' then
        clock_scan (num_marcos_ram s) s
      else
        (case fifo_queue s of
           [] \<Rightarrow> Ok None s
         | f # rest \<Rightarrow> Ok (Some f) (s\<lparr>fifo_queue := rest\<rparr>)))"

subsection \<open>Admission\<close>

text \<open>
  One iteration of the loop of \<open>allocate_pages_for_process\<close>, for the page
  \<open>pagina\<close> of the process \<open>r\<close>.
\<close>

definition allocate_page :: "nat \<Rightarrow> int \<Rightarrow> sim \<Rightarrow> unit result" where
  "allocate_page r pagina s =
     (case free_frames s of
        f # ff \<Rightarrow> place_page_in_frame r pagina f (s\<lparr>free_frames := ff\<rparr>)
      | [] \<Rightarrow>
         (case select_victim_frame s of
            Raise e s' \<Rightarrow> Raise e s'
          | Ok None s' \<Rightarrow>
             (case free_swap_slots s' of
                [] \<Rightarrow> Ok () s'
              | sl # rest \<Rightarrow>
                 let s1 = s'\<lparr>free_swap_slots := rest\<rparr>
                 in if \<not> pt_has s1 r pagina then Raise KeyError s1
                    else
                      let s2 = upd_pte r pagina (\<lambda>e. e\<lparr>present := False, frame := None,
                                  swap_slot := Some sl\<rparr>) s1
                      in if sl \<ge> length (swap s2) then Raise IndexError s2
                         else Ok () (s2\<lparr>swap := (swap s2)[sl := Some \<lparr>sl_pid = r,
                                         sl_page = pagina, stored_time = ticks s2\<rparr>],
                                       swap_outs := swap_outs s2 + 1\<rparr>))
          | Ok (Some victim_frame) s' \<Rightarrow>
             (case swap_out_frame victim_frame s' of
                Raise e s'' \<Rightarrow> Raise e s''
              | Ok _ s'' \<Rightarrow> place_page_in_frame r pagina victim_frame s'')))"

fun allocate_loop :: "nat \<Rightarrow> nat list \<Rightarrow> sim \<Rightarrow> unit result" where
  "allocate_loop r [] s = Ok () s"
| "allocate_loop r (pagina # rest) s =
     (case allocate_page r (int pagina) s of
        Raise e s' \<Rightarrow> Raise e s'
      | Ok _ s' \<Rightarrow> allocate_loop r rest s')"

definition allocate_pages_for_process :: "nat \<Rightarrow> sim \<Rightarrow> unit result" where
  "allocate_pages_for_process r s =
     allocate_loop r [0..<nat (paginas (procs s r))] s"

text \<open>
  \<open>PCB.__init__\<close>: \<open>paginas = math.ceil(tam_kb / page_kb)\<close>, the ceiling of the
  quotient (the float division of the source is exact for the sizes a configuration
  holds, below \<open>2^53\<close>), and one empty entry per page.
\<close>

definition ceil_div :: "int \<Rightarrow> nat \<Rightarrow> int" where
  "ceil_div a b = - ((- a) div int b)"

definition new_pcb :: "nat \<Rightarrow> string \<Rightarrow> int \<Rightarrow> int \<Rightarrow> int \<Rightarrow> nat \<Rightarrow> pcb" where
  "new_pcb p nom tam prio instr pagekb =
     \<lparr>pid = p, nombre = nom, tamano_kb = tam, prioridad = prio,
      instrucciones_totales = instr, instrucciones_restantes = instr, estado = NUEVO,
      paginas = ceil_div tam pagekb,
      tabla_paginas = replicate (nat (ceil_div tam pagekb)) pte_vacia,
      motivo_terminacion = []\<rparr>"

text \<open>\<open>crear_proceso\<close> returns the new PCB, here its PID.\<close>

definition crear_proceso :: "string \<Rightarrow> int \<Rightarrow> int \<Rightarrow> int \<Rightarrow> sim \<Rightarrow> nat result" where
  "crear_proceso nom tam prio instr s =
     (if page_kb s = 0 then Raise ZeroDivisionError s
      else
        let p = contador_pid s;
            s1 = s\<lparr>procs := (procs s)(p := (new_pcb p nom tam prio instr (page_kb s))
                                               \<lparr>estado := LISTO\<rparr>),
                   contador_pid := contador_pid s + 1,
                   cola_listos := cola_listos s @ [p]\<rparr>
        in case allocate_pages_for_process p s1 of
             Raise e s' \<Rightarrow> Raise e s'
           | Ok _ s' \<Rightarrow> Ok p s')"

text \<open>
  \<open>random.randint(lo, hi)\<close>: the environment supplies a natural number and the
  result is the value it selects in \<open>[lo, hi]\<close>; an empty range raises \<open>ValueError\<close>
  (checked by the callers).
\<close>

definition randint :: "int \<Rightarrow> int \<Rightarrow> nat \<Rightarrow> int" where
  "randint lo hi rnd = lo + int (rnd mod nat (hi - lo + 1))"

fun str_of_nat :: "nat \<Rightarrow> string" where
  "str_of_nat n =
     (if n < 10 then [char_of (48 + n)]
      else str_of_nat (n div 10) @ [char_of (48 + n mod 10)])"

definition crear_proceso_aleatorio :: "nat \<Rightarrow> nat \<Rightarrow> nat \<Rightarrow> sim \<Rightarrow> nat result" where
  "crear_proceso_aleatorio r1 r2 r3 s =
     (let tam = randint 1 (max 1 (min (max_rand_mem s) (int (ram_kb s + swap_kb s)))) r1;
          instr = randint 1 (max 1 (max_rand_instr s)) r2;
          nom = ''P'' @ str_of_nat (contador_pid s) @ ''_rand'';
          prio = randint 1 10 r3
      in crear_proceso nom tam prio instr s)"

subsection \<open>Page access\<close>

text \<open>
  The update of the replacement metadata of an occupied frame on a hit
  (\<open>last_access\<close> and the referenced bit); an empty frame is left alone.
\<close>

definition touch_frame :: "nat \<Rightarrow> sim \<Rightarrow> sim" where
  "touch_frame f s =
     (case ram s ! f of
        None \<Rightarrow> s
      | Some d \<Rightarrow> s\<lparr>ram := (ram s)[f := Some (d\<lparr>fr_last_access := access_clock s,
                                                  referenced := True\<rparr>)]\<rparr>)"

text \<open>
  The branch of \<open>access_page\<close> for a page that is in swap slot \<open>sl\<close>, once the frame to
  load it into is known.
\<close>

definition swap_in :: "nat \<Rightarrow> int \<Rightarrow> nat \<Rightarrow> nat \<Rightarrow> sim \<Rightarrow> bool result" where
  "swap_in r page_index sl fr s =
     (if fr \<ge> length (ram s) then Raise IndexError s
      else
        let s1 = s\<lparr>ram := (ram s)[fr := Some \<lparr>fr_pid = r, fr_page = page_index,
                      loaded_time = ticks s, fr_last_access = access_clock s,
                      referenced = True\<rparr>]\<rparr>
        in if \<not> pt_has s1 r page_index then Raise KeyError s1
           else
             let s2 = upd_pte r page_index (\<lambda>e. e\<lparr>present := True, frame := Some fr,
                         swap_slot := None, pte_last_access := access_clock s1\<rparr>) s1
             in if sl \<ge> length (swap s2) then Raise IndexError s2
                else
                  let s3 = s2\<lparr>swap := (swap s2)[sl := None],
                             free_swap_slots := free_swap_slots s2 @ [sl],
                             swap_ins := swap_ins s2 + 1\<rparr>;
                      s4 = (if replacement_algo s3 = ''FIFO''
                            then s3\<lparr>fifo_queue := fifo_queue s3 @ [fr]\<rparr> else s3)
                  in case tlb_add_step r page_index (Some fr) s4 of
                       Raise e s' \<Rightarrow> Raise e s'
                     | Ok _ s' \<Rightarrow> Ok True s')"

text \<open>The page fault on a page held in swap slot \<open>sl\<close> (the fault is already counted).\<close>

definition fault_swapped :: "nat \<Rightarrow> int \<Rightarrow> nat \<Rightarrow> sim \<Rightarrow> bool result" where
  "fault_swapped r page_index sl s =
     (case free_frames s of
        f # ff \<Rightarrow> swap_in r page_index sl f (s\<lparr>free_frames := ff\<rparr>)
      | [] \<Rightarrow>
         (case select_victim_frame s of
            Raise e s' \<Rightarrow> Raise e s'
          | Ok None s' \<Rightarrow> Ok False s'
          | Ok (Some victim) s' \<Rightarrow>
             (case swap_out_frame victim s' of
                Raise e s'' \<Rightarrow> Raise e s''
              | Ok _ s'' \<Rightarrow>
                 (case free_frames s'' of
                    f # ff \<Rightarrow> swap_in r page_index sl f (s''\<lparr>free_frames := ff\<rparr>)
                  | [] \<Rightarrow> swap_in r page_index sl victim s''))))"

text \<open>The page fault on a page that was never placed.\<close>

definition fault_new :: "nat \<Rightarrow> int \<Rightarrow> sim \<Rightarrow> bool result" where
  "fault_new r page_index s =
     (case free_frames s of
        f # ff \<Rightarrow>
         (case place_page_in_frame r page_index f (s\<lparr>free_frames := ff\<rparr>) of
            Raise e s' \<Rightarrow> Raise e s'
          | Ok _ s' \<Rightarrow> Ok True s')
      | [] \<Rightarrow>
         (case select_victim_frame s of
            Raise e s' \<Rightarrow> Raise e s'
          | Ok None s' \<Rightarrow> Ok False s'
          | Ok (Some victim_frame) s' \<Rightarrow>
             (case swap_out_frame victim_frame s' of
                Raise e s'' \<Rightarrow> Raise e s''
              | Ok _ s'' \<Rightarrow>
                 (case place_page_in_frame r page_index victim_frame s'' of
                    Raise e s3 \<Rightarrow> Raise e s3
                  | Ok _ s3 \<Rightarrow> Ok True s3))))"

text \<open>A step that ran to its end, followed by \<open>return v\<close>.\<close>

definition returning :: "'b \<Rightarrow> 'a result \<Rightarrow> 'b result" where
  "returning v res = (case res of Raise e s' \<Rightarrow> Raise e s' | Ok _ s' \<Rightarrow> Ok v s')"

text \<open>\<open>access_page\<close> from the page-table lookup on.\<close>

definition access_table :: "nat \<Rightarrow> int \<Rightarrow> sim \<Rightarrow> bool result" where
  "access_table r page_index s =
     (case pt_get (tabla_paginas (procs s r)) page_index of
        None \<Rightarrow> Ok False s
      | Some entry \<Rightarrow>
         if present entry then
           returning True (case frame entry of
              Some f \<Rightarrow>
                if f \<ge> length (ram s) then Raise IndexError s
                else tlb_add_step r page_index (frame entry)
                       (upd_pte r page_index (\<lambda>e. e\<lparr>pte_last_access := access_clock s\<rparr>)
                          (touch_frame f s))
            | None \<Rightarrow>
                tlb_add_step r page_index (frame entry)
                  (upd_pte r page_index (\<lambda>e. e\<lparr>pte_last_access := access_clock s\<rparr>) s))
         else
           (case swap_slot entry of
              Some sl \<Rightarrow> fault_swapped r page_index sl (s\<lparr>total_fallos := total_fallos s + 1\<rparr>)
            | None \<Rightarrow> fault_new r page_index (s\<lparr>total_fallos := total_fallos s + 1\<rparr>)))"

text \<open>
  \<open>access_page(pcb, page_index)\<close>: the counters advance first, then the TLB probe;
  the result is the truth value the source returns.
\<close>

definition access_page :: "nat \<Rightarrow> int \<Rightarrow> sim \<Rightarrow> bool result" where
  "access_page r page_index s =
     (let s1 = s\<lparr>total_accesos := total_accesos s + 1,
                 access_clock := access_clock s + 1,
                 ticks := ticks s + 1\<rparr>
      in case tlb s1 of
           None \<Rightarrow> access_table r page_index s1
         | Some t \<Rightarrow>
            (case tlb_lookup t (r, page_index) of
               (None, t') \<Rightarrow> access_table r page_index (s1\<lparr>tlb := Some t'\<rparr>)
             | (Some f, t') \<Rightarrow>
                let s2 = s1\<lparr>tlb := Some t'\<rparr>
                in if f \<ge> length (ram s2) then Raise IndexError s2
                   else
                     let s3 = touch_frame f s2
                     in if \<not> pt_has s3 r page_index then Raise KeyError s3
                        else Ok True (upd_pte r page_index
                               (\<lambda>e. e\<lparr>pte_last_access := access_clock s3\<rparr>) s3)))"

subsection \<open>Termination, suspension and the scheduling cycle\<close>

text \<open>
  The termination reasons of the source, as UTF-8 bytes: \<open>Sin paginas\<close> and
  \<open>Finalizacion Normal\<close> (each with one accented vowel, two bytes) and
  \<open>Forzada por Usuario\<close>.
\<close>

definition motivo_sin_paginas :: string where
  "motivo_sin_paginas = ''Sin p'' @ [char_of (195::nat), char_of (161::nat)] @ ''ginas''"

definition motivo_finalizacion_normal :: string where
  "motivo_finalizacion_normal =
     ''Finalizaci'' @ [char_of (195::nat), char_of (179::nat)] @ ''n Normal''"

definition motivo_forzada :: string where
  "motivo_forzada = ''Forzada por Usuario''"

text \<open>
  The loop of \<open>terminar_proceso\<close> over the entries of the page table: a resident
  entry frees its frame, an entry with a swap slot frees the slot.
\<close>

definition liberar_entrada :: "pte \<Rightarrow> sim \<Rightarrow> sim" where
  "liberar_entrada entry s =
     (let s1 = (case frame entry of
                  Some fr \<Rightarrow>
                    if present entry \<and> fr < num_marcos_ram s \<and> ram s ! fr \<noteq> None
                    then s\<lparr>ram := (ram s)[fr := None],
                           free_frames := free_frames s @ [fr],
                           fifo_queue := remove1 fr (fifo_queue s)\<rparr>
                    else s
                | None \<Rightarrow> s)
      in case swap_slot entry of
           Some sl \<Rightarrow>
             if sl < num_marcos_swap s1 \<and> swap s1 ! sl \<noteq> None
             then s1\<lparr>swap := (swap s1)[sl := None],
                     free_swap_slots := free_swap_slots s1 @ [sl]\<rparr>
             else s1
         | None \<Rightarrow> s1)"

fun liberar_paginas :: "pte list \<Rightarrow> sim \<Rightarrow> sim" where
  "liberar_paginas [] s = s"
| "liberar_paginas (entry # es) s = liberar_paginas es (liberar_entrada entry s)"

definition terminar_proceso :: "nat \<Rightarrow> string \<Rightarrow> sim \<Rightarrow> sim" where
  "terminar_proceso r motivo s =
     (let s1 = liberar_paginas (tabla_paginas (procs s r)) s;
          s2 = (case tlb s1 of
                  None \<Rightarrow> s1
                | Some t \<Rightarrow> s1\<lparr>tlb := Some (tlb_invalidate_pid t r)\<rparr>)
      in s2\<lparr>procs := (procs s2)(r := (procs s2 r)\<lparr>estado := TERMINADO,
                                         motivo_terminacion := motivo\<rparr>),
            procesos_terminados := procesos_terminados s2 @ [r]\<rparr>)"

definition forzar_terminacion :: "nat \<Rightarrow> sim \<Rightarrow> sim" where
  "forzar_terminacion pid_a_matar s =
     (if pid_a_matar \<in> set (cola_listos s)
      then terminar_proceso pid_a_matar motivo_forzada
             (s\<lparr>cola_listos := remove1 pid_a_matar (cola_listos s)\<rparr>)
      else if pid_a_matar \<in> set (cola_bloqueados s)
      then terminar_proceso pid_a_matar motivo_forzada
             (s\<lparr>cola_bloqueados := remove1 pid_a_matar (cola_bloqueados s)\<rparr>)
      else if proceso_actual s = Some pid_a_matar
      then (terminar_proceso pid_a_matar motivo_forzada s)\<lparr>proceso_actual := None\<rparr>
      else s)"

definition set_estado :: "nat \<Rightarrow> estado \<Rightarrow> sim \<Rightarrow> sim" where
  "set_estado r e s = s\<lparr>procs := (procs s)(r := (procs s r)\<lparr>estado := e\<rparr>)\<rparr>"

definition suspender_proceso :: "nat \<Rightarrow> sim \<Rightarrow> sim" where
  "suspender_proceso p s =
     (if proceso_actual s = Some p
      then (set_estado p ESPERANDO s)\<lparr>cola_bloqueados := cola_bloqueados s @ [p],
                                       proceso_actual := None\<rparr>
      else if p \<in> set (cola_listos s)
      then (set_estado p ESPERANDO s)\<lparr>cola_listos := remove1 p (cola_listos s),
                                       cola_bloqueados := cola_bloqueados s @ [p]\<rparr>
      else s)"

definition reanudar_proceso :: "nat \<Rightarrow> sim \<Rightarrow> sim" where
  "reanudar_proceso p s =
     (if p \<in> set (cola_bloqueados s)
      then (set_estado p LISTO s)\<lparr>cola_bloqueados := remove1 p (cola_bloqueados s),
                                  cola_listos := cola_listos s @ [p]\<rparr>
      else s)"

definition planificar :: "sim \<Rightarrow> sim" where
  "planificar s =
     (case (proceso_actual s, cola_listos s) of
        (None, p # rest) \<Rightarrow>
           (set_estado p EJECUTANDO s)\<lparr>cola_listos := rest, proceso_actual := Some p\<rparr>
      | _ \<Rightarrow> s)"

text \<open>
  \<open>ejecutar_ciclo\<close> from the dispatch on: the running process references the page
  that \<open>random.randint(0, paginas - 1)\<close> selects (\<open>rnd\<close> is the environment's choice).
\<close>

definition ejecutar_proceso :: "nat \<Rightarrow> sim \<Rightarrow> unit result" where
  "ejecutar_proceso rnd s0 =
     (let s = (if proceso_actual s0 = None then planificar s0 else s0)
      in case proceso_actual s of
           None \<Rightarrow> Ok () s
         | Some p \<Rightarrow>
            if paginas (procs s p) = 0
            then Ok () ((terminar_proceso p motivo_sin_paginas s)\<lparr>proceso_actual := None\<rparr>)
            else if paginas (procs s p) - 1 < 0 then Raise ValueError s
            else
              (case access_page p (randint 0 (paginas (procs s p) - 1) rnd) s of
                 Raise e s' \<Rightarrow> Raise e s'
               | Ok hit s' \<Rightarrow>
                  let s2 = s'\<lparr>procs := (procs s')(p := (procs s' p)
                             \<lparr>instrucciones_restantes :=
                                 instrucciones_restantes (procs s' p) - 1\<rparr>)\<rparr>
                  in if instrucciones_restantes (procs s2 p) \<le> 0
                     then Ok () ((terminar_proceso p motivo_finalizacion_normal s2)
                                   \<lparr>proceso_actual := None\<rparr>)
                     else Ok () s2))"

text \<open>
  \<open>ejecutar_ciclo\<close>: \<open>arrival\<close> is \<open>Some\<close> of the three random draws of
  \<open>crear_proceso_aleatorio\<close> when \<open>random.random() < arrival_prob\<close>, else \<open>None\<close>.
\<close>

definition ejecutar_ciclo :: "(nat \<times> nat \<times> nat) option \<Rightarrow> nat \<Rightarrow> sim \<Rightarrow> unit result" where
  "ejecutar_ciclo arrival rnd s =
     (let s1 = s\<lparr>ticks := ticks s + 1, access_clock := access_clock s + 1\<rparr>
      in case arrival of
           None \<Rightarrow> ejecutar_proceso rnd s1
         | Some (r1, r2, r3) \<Rightarrow>
            (case crear_proceso_aleatorio r1 r2 r3 s1 of
               Raise e s' \<Rightarrow> Raise e s'
             | Ok _ s' \<Rightarrow> ejecutar_proceso rnd s'))"

section \<open>Reachable states\<close>

text \<open>The state an operation leaves behind, whether it returned or raised.\<close>

definition state_of :: "'a result \<Rightarrow> sim" where
  "state_of res = (case res of Raise e s \<Rightarrow> s | Ok v s \<Rightarrow> s)"

text \<open>The two clocks of the simulator: the tick counter and the access clock.\<close>

definition clk :: "sim \<Rightarrow> nat \<times> nat" where
  "clk s = (ticks s, access_clock s)"

definition en_fase :: "sim \<Rightarrow> bool" where
  "en_fase s = (ticks s = access_clock s)"

text \<open>
  The states the driver can produce: a freshly built simulator, and the state left by
  any operation of the menu (also when the operation raised, since the menu catches
  the exceptions of some options and goes on) or by a direct page access of an
  existing process.
\<close>

inductive reachable :: "sim \<Rightarrow> bool" where
  boot: "init_sim ramkb swapkb pagekb algo tlb_on tlbsz maxmem maxinstr = Inr s \<Longrightarrow> reachable s"
| crear: "reachable s \<Longrightarrow> reachable (state_of (crear_proceso nom tam prio instr s))"
| aleatorio: "reachable s \<Longrightarrow> reachable (state_of (crear_proceso_aleatorio r1 r2 r3 s))"
| ciclo: "reachable s \<Longrightarrow> reachable (state_of (ejecutar_ciclo arrival rnd s))"
| acceso: "reachable s \<Longrightarrow> 1 \<le> r \<Longrightarrow> r < contador_pid s \<Longrightarrow>
           reachable (state_of (access_page r page_index s))"
| suspender: "reachable s \<Longrightarrow> reachable (suspender_proceso p s)"
| reanudar: "reachable s \<Longrightarrow> reachable (reanudar_proceso p s)"
| forzar: "reachable s \<Longrightarrow> reachable (forzar_terminacion p s)"

section \<open>Observations on results and example states\<close>

text \<open>What an operation returned, and which exception it raised.\<close>

definition returned :: "'a result \<Rightarrow> 'a option" where
  "returned res = (case res of Raise e s \<Rightarrow> None | Ok v s \<Rightarrow> Some v)"

definition raised :: "'a result \<Rightarrow> error option" where
  "raised res = (case res of Raise e s \<Rightarrow> Some e | Ok v s \<Rightarrow> None)"

text \<open>
  A simulator freshly built from a configuration (TLB capacity 4 and the default bounds
  for random processes); all the configurations used below have a positive page size.
\<close>

definition arranque :: "nat \<Rightarrow> nat \<Rightarrow> nat \<Rightarrow> string \<Rightarrow> bool \<Rightarrow> sim" where
  "arranque ramkb swapkb pagekb algo tlb_on =
     projr (init_sim ramkb swapkb pagekb algo tlb_on 4 1024 30)"

text \<open>
  One frame, one swap slot, FIFO: a process of three pages is admitted. Afterwards no
  frame and no swap slot is free, page 0 is in swap and frame 0 holds page 2.
\<close>

definition sin_slot_antes :: sim where
  "sin_slot_antes =
     state_of (crear_proceso ''P1'' 768 1 10 (arranque 256 256 256 ''FIFO'' False))"

definition sin_slot_despues :: sim where
  "sin_slot_despues = state_of (access_page 1 0 sin_slot_antes)"

text \<open>
  One frame, two swap slots, FIFO, TLB enabled: P1 (one page) is admitted and accessed,
  then P2 (one page) is admitted, which evicts the page of P1.
\<close>

definition tlb_antes :: sim where
  "tlb_antes =
     state_of (crear_proceso ''P2'' 256 1 10
       (state_of (access_page 1 0
          (state_of (crear_proceso ''P1'' 256 1 10 (arranque 256 512 256 ''FIFO'' True))))))"

text \<open>One frame, two swap slots, FIFO: P1 (one page) is admitted.\<close>

definition un_residente :: sim where
  "un_residente = state_of (crear_proceso ''P1'' 256 1 10 (arranque 256 512 256 ''FIFO'' False))"

text \<open>One frame, two swap slots: a process of size 0 KB is admitted.\<close>

definition sin_paginas_inicio :: sim where
  "sin_paginas_inicio = arranque 256 512 256 ''FIFO'' False"

definition sin_paginas_admitido :: sim where
  "sin_paginas_admitido = state_of (crear_proceso ''P1'' 0 1 10 sin_paginas_inicio)"

text \<open>The TLB, when enabled, holds no entry for the key \<open>(r, i)\<close>.\<close>

definition tlb_sin_entrada :: "sim \<Rightarrow> nat \<Rightarrow> int \<Rightarrow> bool" where
  "tlb_sin_entrada s r i =
     (case tlb s of None \<Rightarrow> True | Some t \<Rightarrow> map_of (entries t) (r, i) = None)"

text \<open>The page-table entry of a page resident in frame \<open>f\<close>, stamped \<open>t\<close>.\<close>

definition pte_residente :: "nat \<Rightarrow> nat \<Rightarrow> pte" where
  "pte_residente t f = \<lparr>present = True, frame = Some f, swap_slot = None, pte_last_access = t\<rparr>"

text \<open>A frame with its referenced bit masked out.\<close>

definition sin_bit :: "frame option \<Rightarrow> frame option" where
  "sin_bit fo = map_option (\<lambda>f. f\<lparr>referenced := False\<rparr>) fo"


text \<open>Two frames, CLOCK: both hold a page of P1, both referenced bits are set.\<close>

definition reloj_ejemplo :: sim where
  "reloj_ejemplo = state_of (crear_proceso ''P1'' 512 1 10 (arranque 512 512 256 ''CLOCK'' False))"

section \<open>Validity of the TLB keys\<close>

text \<open>
  The part of the state that decides which PIDs and which page indices exist: the PID
  counter, the TLB, the queues, the running slot and the length of every page table.
\<close>

definition forma :: "sim \<Rightarrow> nat \<times> tlb_cache option \<times> nat list \<times> nat list \<times> nat list
                       \<times> nat option \<times> (nat \<Rightarrow> nat)" where
  "forma s = (contador_pid s, tlb s, cola_listos s, cola_bloqueados s, procesos_terminados s,
              proceso_actual s, \<lambda>p. length (tabla_paginas (procs s p)))"

text \<open>Every PID held by a queue or by the running slot has been handed out.\<close>

definition pids_ok :: "sim \<Rightarrow> bool" where
  "pids_ok s = list_all (\<lambda>p. p < contador_pid s)
                  (cola_listos s @ cola_bloqueados s @ procesos_terminados s
                   @ (case proceso_actual s of None \<Rightarrow> [] | Some p \<Rightarrow> [p]))"

text \<open>Every key of the TLB names a page of the page table of a process handed out.\<close>

definition tlb_entradas :: "sim \<Rightarrow> ((nat \<times> int) \<times> nat option) list" where
  "tlb_entradas s = (case tlb s of None \<Rightarrow> [] | Some t \<Rightarrow> entries t)"

definition tlb_ok :: "sim \<Rightarrow> bool" where
  "tlb_ok s = list_all (\<lambda>e. fst (fst e) < contador_pid s
                             \<and> pt_has s (fst (fst e)) (snd (fst e))) (tlb_entradas s)"

definition tlb_valida :: "sim \<Rightarrow> bool" where
  "tlb_valida s = (pids_ok s \<and> tlb_ok s)"

section \<open>Admissions that select no victim\<close>

text \<open>
  The frames and the swap slots that \<open>terminar_proceso\<close> looks at when it walks a page
  table: the frame of every entry that is present, the slot of every entry that has
  one.
\<close>

fun marcos_de :: "pte list \<Rightarrow> nat list" where
  "marcos_de [] = []"
| "marcos_de (e # es) =
     (case frame e of
        Some f \<Rightarrow> if present e then f # marcos_de es else marcos_de es
      | None \<Rightarrow> marcos_de es)"

fun slots_de :: "pte list \<Rightarrow> nat list" where
  "slots_de [] = []"
| "slots_de (e # es) =
     (case swap_slot e of Some sl \<Rightarrow> sl # slots_de es | None \<Rightarrow> slots_de es)"





definition un_marco_un_slot :: sim where
  "un_marco_un_slot = arranque 256 256 256 ''FIFO'' False"

section \<open>A state for the LRU scan\<close>

text \<open>Three frames under LRU; frames 1 and 2 share the oldest stamp.\<close>

definition lru_ejemplo :: sim where
  "lru_ejemplo =
     (case init_sim 768 512 256 ''lru'' False 4 1024 30 of
        Inr s \<Rightarrow> s\<lparr>ram := [Some \<lparr>fr_pid = 1, fr_page = 0, loaded_time = 0,
                              fr_last_access = 5, referenced = True\<rparr>,
                         Some \<lparr>fr_pid = 1, fr_page = 1, loaded_time = 0,
                              fr_last_access = 2, referenced = True\<rparr>,
                         Some \<lparr>fr_pid = 1, fr_page = 2, loaded_time = 0,
                              fr_last_access = 2, referenced = True\<rparr>],
                 free_frames := []\<rparr>)"

section \<open>Victim selection under LRU\<close>

lemma lru_scan_None:
  "(lru_scan fs i best = None) = (best = None \<and> (\<forall>k<length fs. fs ! k = None))"
proof (induction fs i best rule: lru_scan.induct)
  case (1 i best)
  then show ?case by simp
next
  case (2 fs i best)
  then show ?case by (auto simp: less_Suc_eq_0_disj)
next
  case (3 f fs i best)
  then show ?case by (auto split: option.splits simp: less_Suc_eq_0_disj)
qed

lemma lru_scan_source:
  "lru_scan fs i best = Some (v, t) \<Longrightarrow>
     best = Some (v, t) \<or>
     (\<exists>k f. k < length fs \<and> v = i + k \<and> fs ! k = Some f \<and> fr_last_access f = t)"
proof (induction fs i best rule: lru_scan.induct)
  case (1 i best)
  then show ?case by simp
next
  case (2 fs i best)
  then show ?case by fastforce
next
  case (3 f fs i best)
  then show ?case
    by (fastforce split: option.splits if_splits)
qed

lemma lru_scan_best:
  "lru_scan fs i best = Some (v, t) \<Longrightarrow> best = Some (b, bt) \<Longrightarrow>
     t \<le> bt \<and> (t = bt \<longrightarrow> v = b)"
proof (induction fs i best arbitrary: b bt rule: lru_scan.induct)
  case (1 i best)
  then show ?case by simp
next
  case (2 fs i best)
  then show ?case by simp
next
  case (3 f fs i best)
  then show ?case
    by (fastforce split: option.splits if_splits)
qed

lemma lru_scan_min:
  "lru_scan fs i best = Some (v, t) \<Longrightarrow> k < length fs \<Longrightarrow> fs ! k = Some f \<Longrightarrow>
     (\<And>b bt. best = Some (b, bt) \<Longrightarrow> b < i) \<Longrightarrow>
     t \<le> fr_last_access f \<and> (fr_last_access f = t \<longrightarrow> v \<le> i + k)"
proof (induction fs i best arbitrary: k rule: lru_scan.induct)
  case (1 i best)
  then show ?case by simp
next
  case (2 fs i best)
  then show ?case by (cases k) (fastforce)+
next
  case (3 g fs i best)
  show ?case
  proof (cases k)
    case 0
    then show ?thesis using 3 
      by (auto split: option.splits if_splits dest!: lru_scan_best)
  next
    case (Suc k')
    then show ?thesis using 3 
      by (fastforce split: option.splits if_splits)
  qed
qed


text \<open>
  Claim C7. Under the LRU policy, whenever at least one frame is occupied,
  \<open>select_victim_frame\<close> returns (without changing the state) an occupied frame whose
  \<open>last_access\<close> stamp is minimal among the occupied frames, and among the occupied
  frames that share that minimum it is the one with the lowest index.
\<close>

theorem lru_select_victim_minimum:
  assumes algo: "replacement_algo s = ''LRU''"
    and occ: "\<exists>i<length (ram s). ram s ! i \<noteq> None"
  shows "\<exists>v f. select_victim_frame s = Ok (Some v) s
           \<and> v < length (ram s) \<and> ram s ! v = Some f
           \<and> (\<forall>j g. j < length (ram s) \<and> ram s ! j = Some g \<longrightarrow>
                  fr_last_access f \<le> fr_last_access g
                  \<and> (fr_last_access g = fr_last_access f \<longrightarrow> v \<le> j))"
proof -
  from occ have "lru_scan (ram s) 0 None \<noteq> None"
    by (simp add: lru_scan_None)
  then obtain v t where vt: "lru_scan (ram s) 0 None = Some (v, t)"
    by (cases "lru_scan (ram s) 0 None") auto
  from lru_scan_source [OF vt] obtain f
    where v: "v < length (ram s)" and f: "ram s ! v = Some f" and t: "fr_last_access f = t"
    by auto
  have sel: "select_victim_frame s = Ok (Some v) s"
    using algo vt by (simp add: select_victim_frame_def)
  have "fr_last_access f \<le> fr_last_access g
          \<and> (fr_last_access g = fr_last_access f \<longrightarrow> v \<le> j)"
    if "j < length (ram s)" "ram s ! j = Some g" for j g
    using lru_scan_min [OF vt that] t by simp
  with sel v f show ?thesis by blast
qed

lemma upper_lru: "upper ''lru'' = ''LRU''"
  by code_simp

theorem lru_select_victim_minimum_witness:
  "replacement_algo lru_ejemplo = ''LRU''
   \<and> (\<exists>i<length (ram lru_ejemplo). ram lru_ejemplo ! i \<noteq> None)
   \<and> (\<exists>f. select_victim_frame lru_ejemplo = Ok (Some 1) lru_ejemplo
          \<and> ram lru_ejemplo ! 1 = Some f
          \<and> (\<forall>j g. j < length (ram lru_ejemplo) \<and> ram lru_ejemplo ! j = Some g \<longrightarrow>
                 fr_last_access f \<le> fr_last_access g
                 \<and> (fr_last_access g = fr_last_access f \<longrightarrow> 1 \<le> j)))"
proof -
  have a: "replacement_algo lru_ejemplo = ''LRU''"
    by (simp add: lru_ejemplo_def init_sim_def upper_lru)
  have r: "ram lru_ejemplo = [Some \<lparr>fr_pid = 1, fr_page = 0, loaded_time = 0,
                              fr_last_access = 5, referenced = True\<rparr>,
                         Some \<lparr>fr_pid = 1, fr_page = 1, loaded_time = 0,
                              fr_last_access = 2, referenced = True\<rparr>,
                         Some \<lparr>fr_pid = 1, fr_page = 2, loaded_time = 0,
                              fr_last_access = 2, referenced = True\<rparr>]"
    by (simp add: lru_ejemplo_def init_sim_def)
  have o: "\<exists>i<length (ram lru_ejemplo). ram lru_ejemplo ! i \<noteq> None"
    unfolding r by (rule exI [of _ 0]) simp
  from lru_select_victim_minimum [OF a o] obtain v f where
    sel: "select_victim_frame lru_ejemplo = Ok (Some v) lru_ejemplo"
    and f: "ram lru_ejemplo ! v = Some f"
    and m: "\<forall>j g. j < length (ram lru_ejemplo) \<and> ram lru_ejemplo ! j = Some g \<longrightarrow>
                  fr_last_access f \<le> fr_last_access g
                  \<and> (fr_last_access g = fr_last_access f \<longrightarrow> v \<le> j)"
    by blast
  have "select_victim_frame lru_ejemplo = Ok (Some 1) lru_ejemplo"
    using a by (simp add: select_victim_frame_def r)
  with sel have "v = 1" by simp
  with sel f m a o show ?thesis by blast
qed

section \<open>The tick counter and the access clock\<close>

lemma state_of_simps [simp]:
  "state_of (Ok v s) = s" "state_of (Raise e s) = s"
  by (simp_all add: state_of_def)

lemma clk_upd [simp]:
  "clk (s\<lparr>ram := a\<rparr>) = clk s" "clk (s\<lparr>free_frames := b\<rparr>) = clk s"
  "clk (s\<lparr>swap := c\<rparr>) = clk s" "clk (s\<lparr>free_swap_slots := d\<rparr>) = clk s"
  "clk (s\<lparr>fifo_queue := e\<rparr>) = clk s" "clk (s\<lparr>clock_pointer := f\<rparr>) = clk s"
  "clk (s\<lparr>procs := g\<rparr>) = clk s" "clk (s\<lparr>cola_listos := h\<rparr>) = clk s"
  "clk (s\<lparr>cola_bloqueados := i\<rparr>) = clk s" "clk (s\<lparr>procesos_terminados := j\<rparr>) = clk s"
  "clk (s\<lparr>proceso_actual := k\<rparr>) = clk s" "clk (s\<lparr>contador_pid := l\<rparr>) = clk s"
  "clk (s\<lparr>tlb := m\<rparr>) = clk s" "clk (s\<lparr>total_accesos := n\<rparr>) = clk s"
  "clk (s\<lparr>total_fallos := n\<rparr>) = clk s" "clk (s\<lparr>swap_ins := n\<rparr>) = clk s"
  "clk (s\<lparr>swap_outs := n\<rparr>) = clk s"
  by (simp_all add: clk_def)

lemma clk_OkD: "res = Ok v s' \<Longrightarrow> clk (state_of res) = c \<Longrightarrow> clk s' = c"
  by simp

lemma clk_RaiseD: "res = Raise e s' \<Longrightarrow> clk (state_of res) = c \<Longrightarrow> clk s' = c"
  by simp

lemma upd_pte_clk [simp]: "clk (upd_pte r i g s) = clk s"
  by (simp add: upd_pte_def)

lemma touch_frame_clk [simp]: "clk (touch_frame f s) = clk s"
  by (simp add: touch_frame_def split: option.splits)

lemma set_estado_clk [simp]: "clk (set_estado r e s) = clk s"
  by (simp add: set_estado_def)

lemma tlb_add_step_clk [simp]: "clk (state_of (tlb_add_step r i fr s)) = clk s"
  by (simp add: tlb_add_step_def split: option.splits)

lemma place_page_in_frame_clk [simp]: "clk (state_of (place_page_in_frame r p f s)) = clk s"
  by (simp add: place_page_in_frame_def Let_def)

lemma swap_out_frame_clk [simp]: "clk (state_of (swap_out_frame f s)) = clk s"
  by (simp add: swap_out_frame_def Let_def split: option.splits list.splits)

lemma clock_scan_clk [simp]: "clk (state_of (clock_scan k s)) = clk s"
  by (induction k s rule: clock_scan.induct) (simp_all add: Let_def split: option.splits)

lemma select_victim_frame_clk [simp]: "clk (state_of (select_victim_frame s)) = clk s"
  by (simp add: select_victim_frame_def split: list.splits)

lemmas select_victim_frame_clk_D =
  clk_OkD [OF _ select_victim_frame_clk] clk_RaiseD [OF _ select_victim_frame_clk]
lemmas swap_out_frame_clk_D =
  clk_OkD [OF _ swap_out_frame_clk] clk_RaiseD [OF _ swap_out_frame_clk]
lemmas place_page_in_frame_clk_D =
  clk_OkD [OF _ place_page_in_frame_clk] clk_RaiseD [OF _ place_page_in_frame_clk]

lemma allocate_page_clk [simp]: "clk (state_of (allocate_page r p s)) = clk s"
  by (auto simp: allocate_page_def Let_def split: list.splits result.splits option.splits
      dest!: select_victim_frame_clk_D swap_out_frame_clk_D)

lemmas allocate_page_clk_D =
  clk_OkD [OF _ allocate_page_clk] clk_RaiseD [OF _ allocate_page_clk]

lemma allocate_loop_clk [simp]: "clk (state_of (allocate_loop r ps s)) = clk s"
  by (induction ps arbitrary: s) (auto split: result.splits dest!: allocate_page_clk_D)

lemmas allocate_loop_clk_D =
  clk_OkD [OF _ allocate_loop_clk] clk_RaiseD [OF _ allocate_loop_clk]

lemma crear_proceso_clk [simp]: "clk (state_of (crear_proceso nom tam prio instr s)) = clk s"
  by (auto simp: crear_proceso_def allocate_pages_for_process_def Let_def
      split: result.splits dest!: allocate_loop_clk_D)

lemma crear_proceso_aleatorio_clk [simp]:
  "clk (state_of (crear_proceso_aleatorio r1 r2 r3 s)) = clk s"
  by (simp add: crear_proceso_aleatorio_def Let_def)

lemmas tlb_add_step_clk_D =
  clk_OkD [OF _ tlb_add_step_clk] clk_RaiseD [OF _ tlb_add_step_clk]

lemma swap_in_clk [simp]: "clk (state_of (swap_in r i sl f s)) = clk s"
  by (auto simp: swap_in_def Let_def split: result.splits dest!: tlb_add_step_clk_D)

lemmas swap_in_clk_D = clk_OkD [OF _ swap_in_clk] clk_RaiseD [OF _ swap_in_clk]

lemma fault_swapped_clk [simp]: "clk (state_of (fault_swapped r i sl s)) = clk s"
  by (auto simp: fault_swapped_def split: list.splits result.splits option.splits
      dest!: select_victim_frame_clk_D swap_out_frame_clk_D)

lemma fault_new_clk [simp]: "clk (state_of (fault_new r i s)) = clk s"
  by (auto simp: fault_new_def split: list.splits result.splits option.splits
      dest!: select_victim_frame_clk_D swap_out_frame_clk_D place_page_in_frame_clk_D)

lemma returning_clk [simp]: "clk (state_of (returning v res)) = clk (state_of res)"
  by (simp add: returning_def split: result.splits)

lemma access_table_clk [simp]: "clk (state_of (access_table r i s)) = clk s"
  by (simp add: access_table_def split: option.splits)

lemma access_page_clk:
  "clk (state_of (access_page r i s)) = (ticks s + 1, access_clock s + 1)"
  by (simp add: access_page_def Let_def split: option.splits prod.splits)
    (simp add: clk_def)

lemma liberar_entrada_clk [simp]: "clk (liberar_entrada e s) = clk s"
  by (simp add: liberar_entrada_def Let_def split: option.splits)

lemma liberar_paginas_clk [simp]: "clk (liberar_paginas es s) = clk s"
  by (induction es arbitrary: s) simp_all

lemma terminar_proceso_clk [simp]: "clk (terminar_proceso r m s) = clk s"
  by (simp add: terminar_proceso_def Let_def split: option.splits)

lemma forzar_terminacion_clk [simp]: "clk (forzar_terminacion p s) = clk s"
  by (simp add: forzar_terminacion_def)

lemma suspender_proceso_clk [simp]: "clk (suspender_proceso p s) = clk s"
  by (simp add: suspender_proceso_def)

lemma reanudar_proceso_clk [simp]: "clk (reanudar_proceso p s) = clk s"
  by (simp add: reanudar_proceso_def)

lemma planificar_clk [simp]: "clk (planificar s) = clk s"
  by (simp add: planificar_def split: option.splits list.splits)

lemma en_fase_clk: "en_fase s = (fst (clk s) = snd (clk s))"
  by (simp add: en_fase_def clk_def)

lemma access_page_en_fase: "en_fase s \<Longrightarrow> en_fase (state_of (access_page r i s))"
  by (simp add: en_fase_clk access_page_clk) (simp add: clk_def)

lemma access_page_en_fase_D:
  "access_page r i s = Ok v s' \<Longrightarrow> en_fase s \<Longrightarrow> en_fase s'"
  "access_page r i s = Raise e s' \<Longrightarrow> en_fase s \<Longrightarrow> en_fase s'"
  using access_page_en_fase [of s r i] by simp_all

lemma en_fase_upd [simp]:
  "en_fase (s\<lparr>procs := g\<rparr>) = en_fase s"
  "en_fase (s\<lparr>proceso_actual := k\<rparr>) = en_fase s"
  "en_fase (terminar_proceso r m s) = en_fase s"
  "en_fase (planificar s) = en_fase s"
  by (simp_all add: en_fase_clk)

lemma ejecutar_proceso_en_fase:
  assumes "en_fase s"
  shows "en_fase (state_of (ejecutar_proceso rnd s))"
proof -
  define s1 where "s1 = (if proceso_actual s = None then planificar s else s)"
  have p: "en_fase s1"
    using assms by (simp add: s1_def)
  have e: "ejecutar_proceso rnd s =
     (case proceso_actual s1 of
           None \<Rightarrow> Ok () s1
         | Some p \<Rightarrow>
            if paginas (procs s1 p) = 0
            then Ok () ((terminar_proceso p motivo_sin_paginas s1)\<lparr>proceso_actual := None\<rparr>)
            else if paginas (procs s1 p) - 1 < 0 then Raise ValueError s1
            else
              (case access_page p (randint 0 (paginas (procs s1 p) - 1) rnd) s1 of
                 Raise e s' \<Rightarrow> Raise e s'
               | Ok hit s' \<Rightarrow>
                  let s2 = s'\<lparr>procs := (procs s')(p := (procs s' p)
                             \<lparr>instrucciones_restantes :=
                                 instrucciones_restantes (procs s' p) - 1\<rparr>)\<rparr>
                  in if instrucciones_restantes (procs s2 p) \<le> 0
                     then Ok () ((terminar_proceso p motivo_finalizacion_normal s2)
                                   \<lparr>proceso_actual := None\<rparr>)
                     else Ok () s2))"
    unfolding ejecutar_proceso_def s1_def Let_def by (rule refl)
  show ?thesis
  proof (cases "proceso_actual s1")
    case None
    then show ?thesis using p by (simp add: e)
  next
    case (Some q)
    show ?thesis
    proof (cases "access_page q (randint 0 (paginas (procs s1 q) - 1) rnd) s1")
      case (Raise err s')
      then have "en_fase s'" using p by (rule access_page_en_fase_D(2))
      then show ?thesis using Some Raise p by (simp add: e)
    next
      case (Ok hit s')
      then have "en_fase s'" using p by (rule access_page_en_fase_D(1))
      then show ?thesis using Some Ok p by (simp add: e Let_def)
    qed
  qed
qed

lemma ejecutar_ciclo_en_fase:
  assumes "en_fase s"
  shows "en_fase (state_of (ejecutar_ciclo arrival rnd s))"
proof -
  let ?s1 = "s\<lparr>ticks := ticks s + 1, access_clock := access_clock s + 1\<rparr>"
  have s1: "en_fase ?s1" using assms by (simp add: en_fase_def)
  show ?thesis
  proof (cases arrival)
    case None
    then show ?thesis using ejecutar_proceso_en_fase [OF s1]
      by (simp add: ejecutar_ciclo_def)
  next
    case (Some a)
    obtain r1 r2 r3 where a: "a = (r1, r2, r3)" by (cases a) auto
    have c: "en_fase (state_of (crear_proceso_aleatorio r1 r2 r3 ?s1))"
      using s1 by (simp add: en_fase_clk)
    show ?thesis
      using c Some a
      by (auto simp: ejecutar_ciclo_def split: result.splits
          intro: ejecutar_proceso_en_fase)
  qed
qed

lemma init_sim_en_fase:
  "init_sim ramkb swapkb pagekb algo tlb_on tlbsz maxmem maxinstr = Inr s \<Longrightarrow> en_fase s"
  by (auto simp: init_sim_def en_fase_def split: if_splits)

text \<open>
  Claim C10. In every reachable state the tick counter equals the access clock. Both
  start at 0 (\<open>init_sim_en_fase\<close>), a page access advances each of them by exactly 1
  (\<open>access_page_clk\<close>), a scheduling cycle advances both by 1 before the access it
  performs (\<open>ejecutar_ciclo_en_fase\<close>), and no other operation changes either.
\<close>

theorem ticks_equal_access_clock:
  "reachable s \<Longrightarrow> ticks s = access_clock s"
proof -
  assume "reachable s"
  then have "en_fase s"
  proof (induction rule: reachable.induct)
    case (boot ramkb swapkb pagekb algo tlb_on tlbsz maxmem maxinstr s)
    then show ?case by (rule init_sim_en_fase)
  next
    case (ciclo s arrival rnd)
    then show ?case by (simp add: ejecutar_ciclo_en_fase)
  next
    case (acceso s r page_index)
    then show ?case by (simp add: access_page_en_fase)
  qed (simp_all add: en_fase_clk)
  then show ?thesis by (simp add: en_fase_def)
qed

lemma arranque_ok:
  "pagekb > 0 \<Longrightarrow>
     init_sim ramkb swapkb pagekb algo tlb_on 4 1024 30 = Inr (arranque ramkb swapkb pagekb algo tlb_on)"
  by (simp add: arranque_def init_sim_def)

theorem ticks_equal_access_clock_witness:
  "reachable (state_of (ejecutar_ciclo None 0 un_residente))
   \<and> ticks (state_of (ejecutar_ciclo None 0 un_residente))
       = access_clock (state_of (ejecutar_ciclo None 0 un_residente))
   \<and> ticks (state_of (ejecutar_ciclo None 0 un_residente)) = 2"
proof -
  have "reachable (arranque 256 512 256 ''FIFO'' False)"
    by (rule reachable.boot [OF arranque_ok]) simp
  then have "reachable un_residente"
    unfolding un_residente_def by (rule reachable.crear)
  then have r: "reachable (state_of (ejecutar_ciclo None 0 un_residente))"
    by (rule reachable.ciclo)
  have "ticks (state_of (ejecutar_ciclo None 0 un_residente)) = 2"
    by code_simp
  with r ticks_equal_access_clock [OF r] show ?thesis
    by simp
qed

section \<open>Page faults with swap exhausted\<close>

text \<open>
  Claim C1 (the code departs from it). In the reachable state \<open>sin_slot_antes\<close> page 0 of
  process 1 is in swap, no frame is free and no swap slot is free. The access to that
  page does not return the unresolved fault: \<open>select_victim_frame\<close> hands out frame 0,
  \<open>swap_out_frame\<close> finds no slot and returns without evicting, and \<open>access_page\<close>
  goes on to load page 0 into frame 0 and returns \<open>True\<close>. The victim (page 2) is
  overwritten while its page-table entry still says resident in frame 0, and its
  contents are in no swap slot.
\<close>

theorem fault_without_slot_overwrites_victim: 
  "free_frames sin_slot_antes = [] \<and> free_swap_slots sin_slot_antes = []
   \<and> ram sin_slot_antes = [Some \<lparr>fr_pid = 1, fr_page = 2, loaded_time = 0,
                                fr_last_access = 0, referenced = True\<rparr>]
   \<and> pt_get (tabla_paginas (procs sin_slot_antes 1)) 0
       = Some \<lparr>present = False, frame = None, swap_slot = Some 0, pte_last_access = 0\<rparr>
   \<and> pt_get (tabla_paginas (procs sin_slot_antes 1)) 2
       = Some \<lparr>present = True, frame = Some 0, swap_slot = None, pte_last_access = 0\<rparr>
   \<and> returned (access_page 1 0 sin_slot_antes) = Some True
   \<and> ram sin_slot_despues = [Some \<lparr>fr_pid = 1, fr_page = 0, loaded_time = 1,
                                  fr_last_access = 1, referenced = True\<rparr>]
   \<and> pt_get (tabla_paginas (procs sin_slot_despues 1)) 2
       = Some \<lparr>present = True, frame = Some 0, swap_slot = None, pte_last_access = 0\<rparr>
   \<and> swap sin_slot_despues = [None]
   \<and> fifo_queue sin_slot_antes = [0, 0] \<and> fifo_queue sin_slot_despues = [0, 0]"
  by code_simp

section \<open>The TLB across evictions\<close>

text \<open>
  Claim C2 (the code departs from it). In the reachable state \<open>tlb_antes\<close> the TLB maps
  (1, 0) to frame 0, but frame 0 holds page 0 of process 2 and page 0 of process 1 is
  in swap: \<open>swap_out_frame\<close> does not touch the TLB. The next access to page 0 of
  process 1 is a TLB hit: it returns \<open>True\<close>, counts no fault and leaves the page in
  swap.
\<close>

theorem stale_tlb_entry_after_eviction:
  "map_option entries (tlb tlb_antes) = Some [((1, 0), Some 0)]
   \<and> ram tlb_antes = [Some \<lparr>fr_pid = 2, fr_page = 0, loaded_time = 1,
                            fr_last_access = 1, referenced = True\<rparr>]
   \<and> pt_get (tabla_paginas (procs tlb_antes 1)) 0
       = Some \<lparr>present = False, frame = None, swap_slot = Some 0, pte_last_access = 1\<rparr>
   \<and> returned (access_page 1 0 tlb_antes) = Some True
   \<and> total_fallos (state_of (access_page 1 0 tlb_antes)) = total_fallos tlb_antes
   \<and> pt_get (tabla_paginas (procs (state_of (access_page 1 0 tlb_antes)) 1)) 0
       = Some \<lparr>present = False, frame = None, swap_slot = Some 0, pte_last_access = 2\<rparr>"
  by code_simp

section \<open>A configuration without frames\<close>

text \<open>
  Claim C3 (the code departs from it). With \<open>page_kb = 256 > ram_kb = 128\<close> there is no
  frame, and under CLOCK the admission of a one-page process raises
  \<open>ZeroDivisionError\<close>: \<open>select_victim_frame\<close> computes \<open>clock_pointer % n\<close> with
  \<open>n = 0\<close>, and the page reaches no swap slot. Under FIFO and under LRU the same
  configuration admits a process of three pages: the first two pages go to the two
  swap slots.
\<close>

theorem clock_without_frames_raises:
  "num_marcos_ram (arranque 128 512 256 ''CLOCK'' False) = 0
   \<and> raised (crear_proceso ''P1'' 256 1 10 (arranque 128 512 256 ''CLOCK'' False))
       = Some ZeroDivisionError
   \<and> swap (state_of (crear_proceso ''P1'' 256 1 10 (arranque 128 512 256 ''CLOCK'' False)))
       = [None, None]
   \<and> returned (crear_proceso ''P1'' 768 1 10 (arranque 128 512 256 ''FIFO'' False)) = Some 1
   \<and> swap (state_of (crear_proceso ''P1'' 768 1 10 (arranque 128 512 256 ''FIFO'' False)))
       = [Some \<lparr>sl_pid = 1, sl_page = 0, stored_time = 0\<rparr>,
          Some \<lparr>sl_pid = 1, sl_page = 1, stored_time = 0\<rparr>]
   \<and> returned (crear_proceso ''P1'' 768 1 10 (arranque 128 512 256 ''LRU'' False)) = Some 1
   \<and> swap (state_of (crear_proceso ''P1'' 768 1 10 (arranque 128 512 256 ''LRU'' False)))
       = [Some \<lparr>sl_pid = 1, sl_page = 0, stored_time = 0\<rparr>,
          Some \<lparr>sl_pid = 1, sl_page = 1, stored_time = 0\<rparr>]"
  by code_simp

section \<open>Unrecognised replacement policies\<close>

text \<open>
  Claim C4 (the code departs from it). One frame, two swap slots, a process of two
  pages. Under the unrecognised policy \<open>RANDOM\<close> page 0 stays resident and page 1 goes
  straight to swap; under FIFO page 0 is evicted and page 1 is resident. The FIFO
  queue is only filled when the policy is literally \<open>FIFO\<close>, so the fallback branch of
  \<open>select_victim_frame\<close> never finds a victim.
\<close>

theorem unknown_policy_differs_from_fifo:
  "tabla_paginas (procs (state_of (crear_proceso ''P1'' 512 1 10
       (arranque 256 512 256 ''RANDOM'' False))) 1)
     = [\<lparr>present = True, frame = Some 0, swap_slot = None, pte_last_access = 0\<rparr>,
        \<lparr>present = False, frame = None, swap_slot = Some 0, pte_last_access = 0\<rparr>]
   \<and> tabla_paginas (procs (state_of (crear_proceso ''P1'' 512 1 10
       (arranque 256 512 256 ''FIFO'' False))) 1)
     = [\<lparr>present = False, frame = None, swap_slot = Some 0, pte_last_access = 0\<rparr>,
        \<lparr>present = True, frame = Some 0, swap_slot = None, pte_last_access = 0\<rparr>]"
  by code_simp

section \<open>Processes without pages\<close>

text \<open>
  Claim C9 as stated fails: directly after the admission of a process of size 0 the
  process is in the ready queue, in state \<open>LISTO\<close>, with no termination reason, and
  the terminated list is empty.
\<close>

theorem zero_page_process_stays_ready_counterexample:
  "returned (crear_proceso ''P1'' 0 1 10 sin_paginas_inicio) = Some 1
   \<and> paginas (procs sin_paginas_admitido 1) = 0
   \<and> cola_listos sin_paginas_admitido = [1]
   \<and> procesos_terminados sin_paginas_admitido = []
   \<and> estado (procs sin_paginas_admitido 1) = LISTO
   \<and> motivo_terminacion (procs sin_paginas_admitido 1) = []"
  by code_simp

lemma liberar_entrada_colas [simp]:
  "procs (liberar_entrada e s) = procs s"
  "cola_listos (liberar_entrada e s) = cola_listos s"
  "cola_bloqueados (liberar_entrada e s) = cola_bloqueados s"
  "procesos_terminados (liberar_entrada e s) = procesos_terminados s"
  "proceso_actual (liberar_entrada e s) = proceso_actual s"
  "contador_pid (liberar_entrada e s) = contador_pid s"
  "tlb (liberar_entrada e s) = tlb s"
  by (simp_all add: liberar_entrada_def Let_def split: option.splits)

lemma liberar_paginas_colas [simp]:
  "procs (liberar_paginas es s) = procs s"
  "cola_listos (liberar_paginas es s) = cola_listos s"
  "cola_bloqueados (liberar_paginas es s) = cola_bloqueados s"
  "procesos_terminados (liberar_paginas es s) = procesos_terminados s"
  "proceso_actual (liberar_paginas es s) = proceso_actual s"
  "contador_pid (liberar_paginas es s) = contador_pid s"
  "tlb (liberar_paginas es s) = tlb s"
  by (induction es arbitrary: s) simp_all

lemma terminar_proceso_colas [simp]:
  "procesos_terminados (terminar_proceso r m s) = procesos_terminados s @ [r]"
  "estado (procs (terminar_proceso r m s) r) = TERMINADO"
  "motivo_terminacion (procs (terminar_proceso r m s) r) = m"
  "cola_listos (terminar_proceso r m s) = cola_listos s"
  "proceso_actual (terminar_proceso r m s) = proceso_actual s"
  by (simp_all add: terminar_proceso_def Let_def split: option.splits)

lemma ceil_div_zero [simp]: "ceil_div 0 b = 0"
  by (simp add: ceil_div_def)

lemma crear_proceso_sin_paginas:
  assumes "page_kb s > 0"
  shows "crear_proceso nom 0 prio instr s =
        Ok (contador_pid s)
           (s\<lparr>procs := (procs s)(contador_pid s :=
                  (new_pcb (contador_pid s) nom 0 prio instr (page_kb s))\<lparr>estado := LISTO\<rparr>),
               contador_pid := contador_pid s + 1,
               cola_listos := cola_listos s @ [contador_pid s]\<rparr>)"
  using assms
  by (simp add: crear_proceso_def allocate_pages_for_process_def new_pcb_def Let_def)

lemma ejecutar_ciclo_sin_paginas:
  assumes z: "paginas (procs t p) = 0"
    and d: "proceso_actual t = Some p \<or> proceso_actual t = None \<and> cola_listos t = p # rest"
  shows "\<exists>t'. ejecutar_ciclo None rnd t = Ok () t'
             \<and> procesos_terminados t' = procesos_terminados t @ [p]
             \<and> estado (procs t' p) = TERMINADO
             \<and> motivo_terminacion (procs t' p) = motivo_sin_paginas
             \<and> proceso_actual t' = None"
proof -
  let ?t1 = "t\<lparr>ticks := ticks t + 1, access_clock := access_clock t + 1\<rparr>"
  let ?t2 = "if proceso_actual ?t1 = None then planificar ?t1 else ?t1"
  have a: "proceso_actual ?t2 = Some p"
    using d by (auto simp: planificar_def set_estado_def)
  have b: "paginas (procs ?t2 p) = 0"
    using d z by (auto simp: planificar_def set_estado_def)
  have c: "procesos_terminados ?t2 = procesos_terminados t"
    using d by (auto simp: planificar_def set_estado_def)
  have "ejecutar_proceso rnd ?t1 =
          Ok () ((terminar_proceso p motivo_sin_paginas ?t2)\<lparr>proceso_actual := None\<rparr>)"
    unfolding ejecutar_proceso_def Let_def using a b by simp
  then have "ejecutar_ciclo None rnd t =
          Ok () ((terminar_proceso p motivo_sin_paginas ?t2)\<lparr>proceso_actual := None\<rparr>)"
    by (simp add: ejecutar_ciclo_def)
  then show ?thesis using c by simp
qed

text \<open>
  Claim C9, amended. The admission of a process of size 0 (page size positive) only
  creates the PCB, with no pages and no termination reason, and appends it to the
  ready queue in state \<open>LISTO\<close>; nothing else changes, in particular the terminated
  list. The process is terminated with reason \<open>motivo_sin_paginas\<close> by the scheduling cycle
  that finds it running or dispatches it from the head of the ready queue.
\<close>

theorem zero_page_process_waits_for_dispatch:
  "(page_kb s > 0 \<longrightarrow>
      crear_proceso nom 0 prio instr s =
        Ok (contador_pid s)
           (s\<lparr>procs := (procs s)(contador_pid s :=
                  (new_pcb (contador_pid s) nom 0 prio instr (page_kb s))\<lparr>estado := LISTO\<rparr>),
               contador_pid := contador_pid s + 1,
               cola_listos := cola_listos s @ [contador_pid s]\<rparr>)
      \<and> paginas (new_pcb (contador_pid s) nom 0 prio instr (page_kb s)) = 0
      \<and> motivo_terminacion (new_pcb (contador_pid s) nom 0 prio instr (page_kb s)) = [])
   \<and> (paginas (procs t p) = 0 \<and>
       (proceso_actual t = Some p \<or> proceso_actual t = None \<and> cola_listos t = p # rest) \<longrightarrow>
       (\<exists>t'. ejecutar_ciclo None rnd t = Ok () t'
             \<and> procesos_terminados t' = procesos_terminados t @ [p]
             \<and> estado (procs t' p) = TERMINADO
             \<and> motivo_terminacion (procs t' p) = motivo_sin_paginas
             \<and> proceso_actual t' = None))"
  using crear_proceso_sin_paginas [of s nom prio instr]
    ejecutar_ciclo_sin_paginas [of t p rest rnd]
  by (simp add: new_pcb_def)

theorem zero_page_process_waits_for_dispatch_witness:
  "page_kb sin_paginas_inicio > 0
   \<and> paginas (procs sin_paginas_admitido 1) = 0
   \<and> proceso_actual sin_paginas_admitido = None
   \<and> cola_listos sin_paginas_admitido = [1]
   \<and> returned (crear_proceso ''P1'' 0 1 10 sin_paginas_inicio) = Some 1
   \<and> (\<exists>t'. ejecutar_ciclo None 0 sin_paginas_admitido = Ok () t'
          \<and> procesos_terminados t' = [1]
          \<and> estado (procs t' 1) = TERMINADO
          \<and> motivo_terminacion (procs t' 1) = motivo_sin_paginas
          \<and> proceso_actual t' = None)"
proof -
  have a: "page_kb sin_paginas_inicio > 0"
    by code_simp
  have b: "paginas (procs sin_paginas_admitido 1) = 0
           \<and> proceso_actual sin_paginas_admitido = None
           \<and> cola_listos sin_paginas_admitido = [1]"
    by code_simp
  have c: "procesos_terminados sin_paginas_admitido = []"
    by code_simp
  have d: "contador_pid sin_paginas_inicio = 1"
    by code_simp
  from zero_page_process_waits_for_dispatch
         [of sin_paginas_inicio "''P1''" 1 10 sin_paginas_admitido 1 "[]" 0] a b
  have "crear_proceso ''P1'' 0 1 10 sin_paginas_inicio
          = Ok (contador_pid sin_paginas_inicio)
             (sin_paginas_inicio\<lparr>procs := (procs sin_paginas_inicio)
                  (contador_pid sin_paginas_inicio :=
                     (new_pcb (contador_pid sin_paginas_inicio) ''P1'' 0 1 10
                        (page_kb sin_paginas_inicio))\<lparr>estado := LISTO\<rparr>),
               contador_pid := contador_pid sin_paginas_inicio + 1,
               cola_listos := cola_listos sin_paginas_inicio
                                @ [contador_pid sin_paginas_inicio]\<rparr>)"
    and "\<exists>t'. ejecutar_ciclo None 0 sin_paginas_admitido = Ok () t'
          \<and> procesos_terminados t' = procesos_terminados sin_paginas_admitido @ [1]
          \<and> estado (procs t' 1) = TERMINADO
          \<and> motivo_terminacion (procs t' 1) = motivo_sin_paginas
          \<and> proceso_actual t' = None"
    by simp_all
  with a b c d show ?thesis
    by (simp add: returned_def)
qed

section \<open>Admission followed by termination\<close>


subsection \<open>Every page finds a free frame\<close>

lemma pte_overwritten [simp]:
  "(e :: pte)\<lparr>present := a, frame := b, swap_slot := c, pte_last_access := d\<rparr>
     = \<lparr>present = a, frame = b, swap_slot = c, pte_last_access = d\<rparr>"
  by (cases e) simp









subsection \<open>No victim is available\<close>











lemma marcos_slots_simples [simp]:
  "marcos_de [pte_residente t f] = [f]" "slots_de [pte_residente t f] = []"
  "marcos_de [pte_vacia\<lparr>present := False, frame := None, swap_slot := Some sl\<rparr>] = []"
  "slots_de [pte_vacia\<lparr>present := False, frame := None, swap_slot := Some sl\<rparr>] = [sl]"
  by (simp_all add: pte_residente_def pte_vacia_def)







lemma marcos_slots_replicate [simp]:
  "marcos_de (replicate n pte_vacia) = []" "slots_de (replicate n pte_vacia) = []"
  by (induction n) (simp_all add: pte_vacia_def)


subsection \<open>The law\<close>



subsection \<open>An admission that selects a victim\<close>

text \<open>
  Outside the law above. On a fresh simulator with one frame and one swap slot a
  process of two pages evicts its own first page to make room for the second.
  \<open>swap_out_frame\<close> appends the freed frame to \<open>free_frames\<close> and
  \<open>allocate_pages_for_process\<close> loads the page into it without taking it off the
  queue, as the fault path of \<open>access_page\<close> does: after the admission frame 0 is both
  occupied and listed as free, and after the termination the free-frame queue of the
  one-frame RAM is \<open>[0, 0]\<close>, while the free swap slot is back. The same happens
  under LRU and under CLOCK.
\<close>

lemma admision_con_victima_deja_marco_en_cola:
  "free_frames un_marco_un_slot = [0] \<and> free_swap_slots un_marco_un_slot = [0]
   \<and> ram un_marco_un_slot = [None]
   \<and> returned (crear_proceso ''P1'' 512 1 10 un_marco_un_slot) = Some 1
   \<and> free_frames (state_of (crear_proceso ''P1'' 512 1 10 un_marco_un_slot)) = [0]
   \<and> ram (state_of (crear_proceso ''P1'' 512 1 10 un_marco_un_slot))
       = [Some \<lparr>fr_pid = 1, fr_page = 1, loaded_time = 0, fr_last_access = 0,
                referenced = True\<rparr>]
   \<and> free_frames (forzar_terminacion 1
        (state_of (crear_proceso ''P1'' 512 1 10 un_marco_un_slot))) = [0, 0]
   \<and> free_swap_slots (forzar_terminacion 1
        (state_of (crear_proceso ''P1'' 512 1 10 un_marco_un_slot))) = [0]
   \<and> free_frames (forzar_terminacion 1 (state_of (crear_proceso ''P1'' 512 1 10
        (arranque 256 256 256 ''LRU'' False)))) = [0, 0]
   \<and> free_frames (forzar_terminacion 1 (state_of (crear_proceso ''P1'' 512 1 10
        (arranque 256 256 256 ''CLOCK'' False)))) = [0, 0]"
  by code_simp

section \<open>What victim selection changes\<close>

text \<open>
  Claim C8 as stated fails: under FIFO, with the queue \<open>[0]\<close>, the selection returns
  frame 0 and leaves the queue empty.
\<close>

theorem select_victim_pops_fifo_counterexample:
  "fifo_queue un_residente = [0]
   \<and> returned (select_victim_frame un_residente) = Some (Some 0)
   \<and> fifo_queue (state_of (select_victim_frame un_residente)) = []"
  by code_simp

lemma sin_bit_update:
  assumes "fr < length rs" and "rs ! fr = Some f"
  shows "map sin_bit (rs[fr := Some (f\<lparr>referenced := False\<rparr>)]) = map sin_bit rs"
proof -
  have "map sin_bit (rs[fr := Some (f\<lparr>referenced := False\<rparr>)])
          = (map sin_bit rs)[fr := sin_bit (rs ! fr)]"
    using assms by (simp add: map_update sin_bit_def)
  also have "\<dots> = map sin_bit rs"
    using assms(1) by (metis length_map list_update_id nth_map)
  finally show ?thesis .
qed

lemma clock_scan_effects:
  "0 < length (ram s) \<Longrightarrow>
     \<exists>v s'. clock_scan k s = Ok (Some v) s' \<and> v < length (ram s)
        \<and> s' = s\<lparr>ram := ram s', clock_pointer := clock_pointer s'\<rparr>
        \<and> clock_pointer s' < length (ram s)
        \<and> map sin_bit (ram s') = map sin_bit (ram s)"
proof (induction k arbitrary: s)
  case 0
  then show ?case by (simp add: num_marcos_ram_def Let_def)
next
  case (Suc k)
  let ?n = "length (ram s)"
  let ?fr = "clock_pointer s mod ?n"
  have fr: "?fr < ?n" using Suc.prems by simp
  show ?case
  proof (cases "ram s ! ?fr")
    case None
    then show ?thesis using Suc.prems by (simp add: num_marcos_ram_def Let_def)
  next
    case (Some f)
    show ?thesis
    proof (cases "referenced f")
      case False
      then show ?thesis using Some Suc.prems by (simp add: num_marcos_ram_def Let_def)
    next
      case True
      let ?s1 = "s\<lparr>ram := (ram s)[?fr := Some (f\<lparr>referenced := False\<rparr>)],
                    clock_pointer := (clock_pointer s + 1) mod ?n\<rparr>"
      have step: "clock_scan (Suc k) s = clock_scan k ?s1"
        using Some True by (simp add: num_marcos_ram_def Let_def)
      have "0 < length (ram ?s1)" using Suc.prems by simp
      from Suc.IH [OF this] obtain v s' where
        r: "clock_scan k ?s1 = Ok (Some v) s'" and v: "v < length (ram ?s1)"
        and e: "s' = ?s1\<lparr>ram := ram s', clock_pointer := clock_pointer s'\<rparr>"
        and p: "clock_pointer s' < length (ram ?s1)"
        and m: "map sin_bit (ram s') = map sin_bit (ram ?s1)"
        by blast
      have e': "s' = s\<lparr>ram := ram s', clock_pointer := clock_pointer s'\<rparr>"
        using e by simp
      have m': "map sin_bit (ram s') = map sin_bit (ram s)"
        using m sin_bit_update [OF fr Some] by simp
      show ?thesis
        using step r v e' p m' by simp
    qed
  qed
qed

text \<open>
  Claim C8, amended. Under LRU the selection changes nothing. Under FIFO (and under
  an unrecognised policy name) it returns the head of the FIFO queue and removes it
  from the queue, changing nothing else; on an empty queue it returns nothing and
  changes nothing. Under CLOCK, with at least one frame, it returns the index of a
  frame and changes only the clock pointer, which stays below the number of frames,
  and the referenced bits of frames; the FIFO queue, the free queues, the page tables
  and every other field of the frames are as before.
\<close>

theorem select_victim_frame_effects:
  "(replacement_algo s = ''LRU'' \<longrightarrow> (\<exists>v. select_victim_frame s = Ok v s))
   \<and> (replacement_algo s \<noteq> ''LRU'' \<and> replacement_algo s \<noteq> ''CLOCK'' \<longrightarrow>
        select_victim_frame s =
          (case fifo_queue s of
             [] \<Rightarrow> Ok None s
           | f # rest \<Rightarrow> Ok (Some f) (s\<lparr>fifo_queue := rest\<rparr>)))
   \<and> (replacement_algo s = ''CLOCK'' \<and> 0 < length (ram s) \<longrightarrow>
        (\<exists>v s'. select_victim_frame s = Ok (Some v) s' \<and> v < length (ram s)
           \<and> s' = s\<lparr>ram := ram s', clock_pointer := clock_pointer s'\<rparr>
           \<and> clock_pointer s' < length (ram s)
           \<and> map sin_bit (ram s') = map sin_bit (ram s)))"
proof (intro conjI impI)
  assume "replacement_algo s = ''LRU''"
  then show "\<exists>v. select_victim_frame s = Ok v s"
    by (simp add: select_victim_frame_def)
next
  assume "replacement_algo s \<noteq> ''LRU'' \<and> replacement_algo s \<noteq> ''CLOCK''"
  then show "select_victim_frame s =
          (case fifo_queue s of
             [] \<Rightarrow> Ok None s
           | f # rest \<Rightarrow> Ok (Some f) (s\<lparr>fifo_queue := rest\<rparr>))"
    by (simp add: select_victim_frame_def)
next
  assume "replacement_algo s = ''CLOCK'' \<and> 0 < length (ram s)"
  then show "\<exists>v s'. select_victim_frame s = Ok (Some v) s' \<and> v < length (ram s)
           \<and> s' = s\<lparr>ram := ram s', clock_pointer := clock_pointer s'\<rparr>
           \<and> clock_pointer s' < length (ram s)
           \<and> map sin_bit (ram s') = map sin_bit (ram s)"
    using clock_scan_effects [of s "num_marcos_ram s"]
    by (simp add: select_victim_frame_def)
qed

theorem select_victim_frame_effects_witness:
  "replacement_algo lru_ejemplo = ''LRU''
   \<and> (\<exists>v. select_victim_frame lru_ejemplo = Ok v lru_ejemplo)
   \<and> replacement_algo un_residente \<noteq> ''LRU'' \<and> replacement_algo un_residente \<noteq> ''CLOCK''
   \<and> select_victim_frame un_residente = Ok (Some 0) (un_residente\<lparr>fifo_queue := []\<rparr>)
   \<and> replacement_algo reloj_ejemplo = ''CLOCK'' \<and> 0 < length (ram reloj_ejemplo)
   \<and> (\<exists>v s'. select_victim_frame reloj_ejemplo = Ok (Some v) s'
          \<and> v < length (ram reloj_ejemplo)
          \<and> s' = reloj_ejemplo\<lparr>ram := ram s', clock_pointer := clock_pointer s'\<rparr>
          \<and> clock_pointer s' < length (ram reloj_ejemplo)
          \<and> map sin_bit (ram s') = map sin_bit (ram reloj_ejemplo))"
proof -
  have a: "replacement_algo lru_ejemplo = ''LRU''" by code_simp
  have b: "replacement_algo un_residente \<noteq> ''LRU'' \<and> replacement_algo un_residente \<noteq> ''CLOCK''"
    by code_simp
  have c: "replacement_algo reloj_ejemplo = ''CLOCK'' \<and> 0 < length (ram reloj_ejemplo)"
    by code_simp
  have q: "fifo_queue un_residente = [0]" by code_simp
  from select_victim_frame_effects [of lru_ejemplo] a
  have 1: "\<exists>v. select_victim_frame lru_ejemplo = Ok v lru_ejemplo" by blast
  from select_victim_frame_effects [of un_residente] b q
  have 2: "select_victim_frame un_residente = Ok (Some 0) (un_residente\<lparr>fifo_queue := []\<rparr>)"
    by simp
  from select_victim_frame_effects [of reloj_ejemplo] c
  have 3: "\<exists>v s'. select_victim_frame reloj_ejemplo = Ok (Some v) s'
          \<and> v < length (ram reloj_ejemplo)
          \<and> s' = reloj_ejemplo\<lparr>ram := ram s', clock_pointer := clock_pointer s'\<rparr>
          \<and> clock_pointer s' < length (ram reloj_ejemplo)
          \<and> map sin_bit (ram s') = map sin_bit (ram reloj_ejemplo)"
    by blast
  from a b c 1 2 3 show ?thesis by blast
qed

section \<open>Access to a page outside the page table\<close>

text \<open>
  Claim C5 as stated fails: page 5 of the one-page process 1 is out of range, the
  access returns \<open>False\<close>, and the tick counter has advanced from 0 to 1.
\<close>

theorem invalid_access_advances_counters_counterexample:
  "pt_get (tabla_paginas (procs un_residente 1)) 5 = None
   \<and> returned (access_page 1 5 un_residente) = Some False
   \<and> ticks un_residente = 0
   \<and> ticks (state_of (access_page 1 5 un_residente)) = 1"
  by code_simp

lemma access_page_fuera_de_tabla:
  assumes "pt_get (tabla_paginas (procs s r)) page_index = None"
    and "tlb_sin_entrada s r page_index"
  shows "access_page r page_index s =
           Ok False (s\<lparr>total_accesos := total_accesos s + 1,
                       access_clock := access_clock s + 1,
                       ticks := ticks s + 1\<rparr>)"
proof (cases "tlb s")
  case None
  then show ?thesis using assms(1)
    by (simp add: access_page_def access_table_def)
next
  case (Some t)
  with assms(2) have "tlb_lookup t (r, page_index) = (None, t)"
    by (simp add: tlb_sin_entrada_def tlb_lookup_def)
  then show ?thesis using assms(1) Some
    by (simp add: access_page_def access_table_def)
qed

subsection \<open>The keys of the TLB are pages that exist\<close>

lemma pt_has_length:
  "pt_has s r i = (0 \<le> i \<and> i < int (length (tabla_paginas (procs s r))))"
  by (simp add: pt_has_def pt_get_def)

lemma forma_eqD:
  assumes "forma s' = forma s"
  shows "contador_pid s' = contador_pid s" "tlb s' = tlb s" "cola_listos s' = cola_listos s"
    "cola_bloqueados s' = cola_bloqueados s" "procesos_terminados s' = procesos_terminados s"
    "proceso_actual s' = proceso_actual s"
    "length (tabla_paginas (procs s' p)) = length (tabla_paginas (procs s p))"
  using assms by (simp_all add: forma_def fun_eq_iff)

lemma forma_pt_has:
  assumes "forma s' = forma s"
  shows "pt_has s' r i = pt_has s r i"
  using forma_eqD(7) [OF assms, of r] by (simp add: pt_has_length)

lemma forma_pids_ok:
  assumes "forma s' = forma s"
  shows "pids_ok s' = pids_ok s"
  using forma_eqD(1,3,4,5,6) [OF assms] by (simp add: pids_ok_def)

lemma forma_tlb_ok:
  assumes "forma s' = forma s"
  shows "tlb_ok s' = tlb_ok s"
proof -
  have "pt_has s' r i = pt_has s r i" for r i
    using assms by (rule forma_pt_has)
  then show ?thesis
    using forma_eqD(1,2) [OF assms] by (simp add: tlb_ok_def tlb_entradas_def)
qed

lemma forma_upd [simp]:
  "forma (s\<lparr>ram := a\<rparr>) = forma s" "forma (s\<lparr>free_frames := b\<rparr>) = forma s"
  "forma (s\<lparr>swap := c\<rparr>) = forma s" "forma (s\<lparr>free_swap_slots := d\<rparr>) = forma s"
  "forma (s\<lparr>fifo_queue := e\<rparr>) = forma s" "forma (s\<lparr>clock_pointer := f\<rparr>) = forma s"
  "forma (s\<lparr>total_accesos := n\<rparr>) = forma s"
  "forma (s\<lparr>total_fallos := n\<rparr>) = forma s" "forma (s\<lparr>swap_ins := n\<rparr>) = forma s"
  "forma (s\<lparr>swap_outs := n\<rparr>) = forma s" "forma (s\<lparr>ticks := n\<rparr>) = forma s"
  "forma (s\<lparr>access_clock := n\<rparr>) = forma s"
  by (simp_all add: forma_def)

lemma upd_pte_forma [simp]: "forma (upd_pte r i g s) = forma s"
  by (auto simp: forma_def upd_pte_def)

lemma touch_frame_forma [simp]: "forma (touch_frame f s) = forma s"
  by (simp add: touch_frame_def split: option.splits)

lemma forma_OkD: "res = Ok v s' \<Longrightarrow> forma (state_of res) = c \<Longrightarrow> forma s' = c"
  by simp

lemma forma_RaiseD: "res = Raise e s' \<Longrightarrow> forma (state_of res) = c \<Longrightarrow> forma s' = c"
  by simp

lemma place_page_in_frame_forma [simp]:
  "forma (state_of (place_page_in_frame r p f s)) = forma s"
  by (simp add: place_page_in_frame_def Let_def)

lemma swap_out_frame_forma [simp]: "forma (state_of (swap_out_frame f s)) = forma s"
  by (simp add: swap_out_frame_def Let_def split: option.splits list.splits)

lemma clock_scan_forma [simp]: "forma (state_of (clock_scan k s)) = forma s"
  by (induction k s rule: clock_scan.induct) (simp_all add: Let_def split: option.splits)

lemma select_victim_frame_forma [simp]: "forma (state_of (select_victim_frame s)) = forma s"
  by (simp add: select_victim_frame_def split: list.splits)

lemmas select_victim_frame_forma_D =
  forma_OkD [OF _ select_victim_frame_forma] forma_RaiseD [OF _ select_victim_frame_forma]
lemmas swap_out_frame_forma_D =
  forma_OkD [OF _ swap_out_frame_forma] forma_RaiseD [OF _ swap_out_frame_forma]
lemmas place_page_in_frame_forma_D =
  forma_OkD [OF _ place_page_in_frame_forma] forma_RaiseD [OF _ place_page_in_frame_forma]

lemma allocate_page_forma [simp]: "forma (state_of (allocate_page r p s)) = forma s"
  by (auto simp: allocate_page_def Let_def split: list.splits result.splits option.splits
      dest!: select_victim_frame_forma_D swap_out_frame_forma_D)

lemmas allocate_page_forma_D =
  forma_OkD [OF _ allocate_page_forma] forma_RaiseD [OF _ allocate_page_forma]

lemma allocate_loop_forma [simp]: "forma (state_of (allocate_loop r ps s)) = forma s"
  by (induction ps arbitrary: s) (auto split: result.splits dest!: allocate_page_forma_D)

lemma forma_tlb_valida:
  assumes "forma s' = forma s"
  shows "tlb_valida s' = tlb_valida s"
  using forma_pids_ok [OF assms] forma_tlb_ok [OF assms] by (simp add: tlb_valida_def)

lemma forma_contador:
  assumes "forma s' = forma s"
  shows "contador_pid s' = contador_pid s"
  using assms by (rule forma_eqD(1))

text \<open>Everything of the shape but the TLB.\<close>

lemma tlb_upd_shape:
  "contador_pid (s\<lparr>tlb := t\<rparr>) = contador_pid s"
  "pids_ok (s\<lparr>tlb := t\<rparr>) = pids_ok s"
  "pt_has (s\<lparr>tlb := t\<rparr>) r i = pt_has s r i"
  by (simp_all add: pids_ok_def pt_has_def)

lemma tlb_entradas_upd [simp]:
  "tlb_entradas (s\<lparr>tlb := Some t\<rparr>) = entries t"
  by (simp add: tlb_entradas_def)

lemma tlb_add_entries:
  assumes "tlb_add t k fr = Some t'" and "list_all P (entries t)" and "P (k, fr)"
  shows "list_all P (entries t')"
  using assms
  by (auto simp: tlb_add_def list_all_iff split: if_splits list.splits)

lemma tlb_lookup_entries:
  assumes "tlb_lookup t k = (fr, t')" and "list_all P (entries t)"
  shows "list_all P (entries t')"
  using assms
  by (auto simp: tlb_lookup_def list_all_iff split: option.splits dest!: map_of_SomeD)

lemma tlb_ok_set:
  assumes "tlb_ok s" and "list_all (\<lambda>e. fst (fst e) < contador_pid s
                                        \<and> pt_has s (fst (fst e)) (snd (fst e))) (entries t')"
  shows "tlb_ok (s\<lparr>tlb := Some t'\<rparr>)"
  using assms by (simp add: tlb_ok_def pt_has_def)

lemma tlb_add_step_valida:
  assumes v: "tlb_valida s" and r: "r < contador_pid s" and h: "pt_has s r i"
  shows "tlb_valida (state_of (tlb_add_step r i fr s))"
proof (cases "tlb s")
  case None
  then show ?thesis using v by (simp add: tlb_add_step_def)
next
  case (Some t)
  show ?thesis
  proof (cases "tlb_add t (r, i) fr")
    case None
    then show ?thesis using v Some by (simp add: tlb_add_step_def)
  next
    case (Some t')
    have "list_all (\<lambda>e. fst (fst e) < contador_pid s
                          \<and> pt_has s (fst (fst e)) (snd (fst e))) (entries t)"
      using v \<open>tlb s = Some t\<close> by (simp add: tlb_valida_def tlb_ok_def tlb_entradas_def)
    from tlb_add_entries [OF Some this] r h
    have "list_all (\<lambda>e. fst (fst e) < contador_pid s
                          \<and> pt_has s (fst (fst e)) (snd (fst e))) (entries t')"
      by simp
    with v have "tlb_ok (s\<lparr>tlb := Some t'\<rparr>)"
      by (simp add: tlb_valida_def tlb_ok_set)
    then show ?thesis using v Some \<open>tlb s = Some t\<close>
      by (simp add: tlb_add_step_def tlb_valida_def tlb_upd_shape)
  qed
qed

lemma tlb_add_step_contador [simp]:
  "contador_pid (state_of (tlb_add_step r i fr s)) = contador_pid s"
  by (simp add: tlb_add_step_def split: option.splits)


lemma returning_state [simp]: "state_of (returning v res) = state_of res"
  by (simp add: returning_def split: result.splits)

lemma swap_in_valida:
  assumes v: "tlb_valida s" and r: "r < contador_pid s"
  shows "tlb_valida (state_of (swap_in r i sl f s))
         \<and> contador_pid (state_of (swap_in r i sl f s)) = contador_pid s"
proof -
  let ?s1 = "s\<lparr>ram := (ram s)[f := Some \<lparr>fr_pid = r, fr_page = i,
                      loaded_time = ticks s, fr_last_access = access_clock s,
                      referenced = True\<rparr>]\<rparr>"
  let ?s2 = "upd_pte r i (\<lambda>e. e\<lparr>present := True, frame := Some f,
                         swap_slot := None, pte_last_access := access_clock ?s1\<rparr>) ?s1"
  let ?s3 = "?s2\<lparr>swap := (swap ?s2)[sl := None],
                   free_swap_slots := free_swap_slots ?s2 @ [sl],
                   swap_ins := swap_ins ?s2 + 1\<rparr>"
  let ?s4 = "if replacement_algo ?s3 = ''FIFO''
             then ?s3\<lparr>fifo_queue := fifo_queue ?s3 @ [f]\<rparr> else ?s3"
  have f1: "forma ?s1 = forma s" and f2: "forma ?s2 = forma s" and f4: "forma ?s4 = forma s"
    by simp_all
  have v1: "tlb_valida ?s1" and v2: "tlb_valida ?s2" and v4: "tlb_valida ?s4"
    using v forma_tlb_valida [OF f1] forma_tlb_valida [OF f2] forma_tlb_valida [OF f4]
    by blast+
  have c4: "contador_pid ?s4 = contador_pid s" using forma_contador [OF f4] .
  have c1: "contador_pid ?s1 = contador_pid s" and c2: "contador_pid ?s2 = contador_pid s"
    using forma_contador [OF f1] forma_contador [OF f2] by blast+
  have h4: "pt_has ?s4 r i = pt_has ?s1 r i"
    using forma_pt_has [OF f4, of r i] forma_pt_has [OF f1, of r i] by simp
  have e: "swap_in r i sl f s =
     (if f \<ge> length (ram s) then Raise IndexError s
      else if \<not> pt_has ?s1 r i then Raise KeyError ?s1
      else if sl \<ge> length (swap ?s2) then Raise IndexError ?s2
      else returning True (tlb_add_step r i (Some f) ?s4))"
    unfolding swap_in_def Let_def returning_def by simp
  show ?thesis
  proof (cases "f < length (ram s) \<and> pt_has ?s1 r i \<and> sl < length (swap ?s2)")
    case True
    then have "pt_has ?s4 r i" using h4 by blast
    from tlb_add_step_valida [OF v4 _ this, of "Some f"] r c4
    have A: "tlb_valida (state_of (tlb_add_step r i (Some f) ?s4))" by simp
    have B: "contador_pid (state_of (tlb_add_step r i (Some f) ?s4)) = contador_pid s"
      using c4 by (simp only: tlb_add_step_contador)
    have st: "state_of (swap_in r i sl f s) = state_of (tlb_add_step r i (Some f) ?s4)"
      using True by (simp add: e)
    show ?thesis unfolding st by (rule conjI [OF A B])
  next
    case False
    then consider "f \<ge> length (ram s)"
      | "f < length (ram s)" "\<not> pt_has ?s1 r i"
      | "f < length (ram s)" "pt_has ?s1 r i" "sl \<ge> length (swap ?s2)"
      by fastforce
    then show ?thesis
    proof cases
      case 1
      then show ?thesis using v by (simp add: e)
    next
      case 2
      then show ?thesis using v1 c1 by (simp add: e)
    next
      case 3
      then show ?thesis using v2 c2 by (simp add: e)
    qed
  qed
qed


lemma swap_in_valida_forma:
  assumes f: "forma s0 = forma s" and v: "tlb_valida s" and r: "r < contador_pid s"
  shows "tlb_valida (state_of (swap_in r i sl fr s0))
         \<and> contador_pid (state_of (swap_in r i sl fr s0)) = contador_pid s"
proof -
  have "tlb_valida s0" using forma_tlb_valida [OF f] v by simp
  moreover have "r < contador_pid s0" using forma_contador [OF f] r by simp
  ultimately show ?thesis
    using swap_in_valida [of s0 r i sl fr] forma_contador [OF f] by simp
qed

lemma fault_swapped_valida:
  assumes v: "tlb_valida s" and r: "r < contador_pid s"
  shows "tlb_valida (state_of (fault_swapped r i sl s))
         \<and> contador_pid (state_of (fault_swapped r i sl s)) = contador_pid s"
proof (cases "free_frames s")
  case (Cons f ff)
  have "forma (s\<lparr>free_frames := ff\<rparr>) = forma s" by simp
  from swap_in_valida_forma [OF this v r] show ?thesis
    using Cons by (simp add: fault_swapped_def)
next
  case Nil
  show ?thesis
  proof (cases "select_victim_frame s")
    case (Raise e s')
    then have "forma s' = forma s" by (rule select_victim_frame_forma_D)
    then show ?thesis
      using Nil Raise v forma_tlb_valida [of s' s] forma_contador [of s' s]
      by (simp add: fault_swapped_def)
  next
    case (Ok vo s')
    then have f': "forma s' = forma s" by (rule select_victim_frame_forma_D)
    show ?thesis
    proof (cases vo)
      case None
      then show ?thesis
        using Nil Ok v f' forma_tlb_valida [of s' s] forma_contador [of s' s]
        by (simp add: fault_swapped_def)
    next
      case (Some victim)
      show ?thesis
      proof (cases "swap_out_frame victim s'")
        case (Raise e s'')
        then have "forma s'' = forma s'" by (rule swap_out_frame_forma_D)
        with f' have "forma s'' = forma s" by simp
        then show ?thesis
          using Nil Ok Some Raise v forma_tlb_valida [of s'' s] forma_contador [of s'' s]
          by (simp add: fault_swapped_def)
      next
        case (Ok so s'')
        then have "forma s'' = forma s'" by (rule swap_out_frame_forma_D)
        with f' have f'': "forma s'' = forma s" by simp
        show ?thesis
        proof (cases "free_frames s''")
          case Nil
          from swap_in_valida_forma [OF f'' v r] show ?thesis
            using \<open>free_frames s = []\<close> \<open>select_victim_frame s = Ok vo s'\<close> Some Ok Nil
            by (simp add: fault_swapped_def)
        next
          case (Cons f ff)
          have "forma (s''\<lparr>free_frames := ff\<rparr>) = forma s" using f'' by simp
          from swap_in_valida_forma [OF this v r] show ?thesis
            using \<open>free_frames s = []\<close> \<open>select_victim_frame s = Ok vo s'\<close> Some Ok Cons
            by (simp add: fault_swapped_def)
        qed
      qed
    qed
  qed
qed

lemma fault_new_forma [simp]: "forma (state_of (fault_new r i s)) = forma s"
  by (auto simp: fault_new_def split: list.splits result.splits option.splits
      dest!: select_victim_frame_forma_D swap_out_frame_forma_D place_page_in_frame_forma_D)


lemma tlb_add_step_valida_forma:
  assumes f: "forma s0 = forma s" and v: "tlb_valida s" and r: "r < contador_pid s"
    and h: "pt_has s r i"
  shows "tlb_valida (state_of (tlb_add_step r i fr s0))
         \<and> contador_pid (state_of (tlb_add_step r i fr s0)) = contador_pid s"
proof -
  have "tlb_valida s0" using forma_tlb_valida [OF f] v by simp
  moreover have "r < contador_pid s0" using forma_contador [OF f] r by simp
  moreover have "pt_has s0 r i" using forma_pt_has [OF f] h by simp
  ultimately show ?thesis
    using tlb_add_step_valida [of s0 r i fr] forma_contador [OF f] by simp
qed

lemma access_table_valida:
  assumes v: "tlb_valida s" and r: "r < contador_pid s"
  shows "tlb_valida (state_of (access_table r i s))
         \<and> contador_pid (state_of (access_table r i s)) = contador_pid s"
proof (cases "pt_get (tabla_paginas (procs s r)) i")
  case None
  then show ?thesis using v by (simp add: access_table_def)
next
  case (Some entry)
  then have h: "pt_has s r i" by (simp add: pt_has_def)
  let ?sf = "s\<lparr>total_fallos := total_fallos s + 1\<rparr>"
  have ff: "forma ?sf = forma s" by simp
  have vf: "tlb_valida ?sf" using forma_tlb_valida [OF ff] v by simp
  have rf: "r < contador_pid ?sf" using r by simp
  show ?thesis
  proof (cases "present entry")
    case False
    show ?thesis
    proof (cases "swap_slot entry")
      case None
      have "forma (state_of (fault_new r i ?sf)) = forma s" by simp
      then show ?thesis
        using Some False None v
          forma_tlb_valida [of "state_of (fault_new r i ?sf)" s]
          forma_contador [of "state_of (fault_new r i ?sf)" s]
        by (simp add: access_table_def)
    next
      case (Some sl)
      from fault_swapped_valida [OF vf rf, of i sl] show ?thesis
        using \<open>pt_get (tabla_paginas (procs s r)) i = Some entry\<close> False Some
        by (simp add: access_table_def)
    qed
  next
    case True
    show ?thesis
    proof (cases "frame entry")
      case None
      have "forma (upd_pte r i (\<lambda>e. e\<lparr>pte_last_access := access_clock s\<rparr>) s) = forma s"
        by simp
      from tlb_add_step_valida_forma [OF this v r h, of None] show ?thesis
        using Some True None by (simp add: access_table_def)
    next
      case (Some f)
      show ?thesis
      proof (cases "f \<ge> length (ram s)")
        case True
        then show ?thesis
          using \<open>pt_get (tabla_paginas (procs s r)) i = Some entry\<close> \<open>present entry\<close> Some v
          by (simp add: access_table_def)
      next
        case False
        have "forma (upd_pte r i (\<lambda>e. e\<lparr>pte_last_access := access_clock s\<rparr>)
                       (touch_frame f s)) = forma s"
          by simp
        from tlb_add_step_valida_forma [OF this v r h, of "Some f"] show ?thesis
          using \<open>pt_get (tabla_paginas (procs s r)) i = Some entry\<close> \<open>present entry\<close> Some False
          by (simp add: access_table_def)
      qed
    qed
  qed
qed

lemma access_table_valida_forma:
  assumes f: "forma s0 = forma s" and v: "tlb_valida s" and r: "r < contador_pid s"
  shows "tlb_valida (state_of (access_table r i s0))
         \<and> contador_pid (state_of (access_table r i s0)) = contador_pid s"
proof -
  have "tlb_valida s0" using forma_tlb_valida [OF f] v by simp
  moreover have "r < contador_pid s0" using forma_contador [OF f] r by simp
  ultimately show ?thesis
    using access_table_valida [of s0 r i] forma_contador [OF f] by simp
qed

lemma access_page_valida:
  assumes v: "tlb_valida s" and r: "r < contador_pid s"
  shows "tlb_valida (state_of (access_page r i s))
         \<and> contador_pid (state_of (access_page r i s)) = contador_pid s"
proof -
  let ?s1 = "s\<lparr>total_accesos := total_accesos s + 1,
                 access_clock := access_clock s + 1,
                 ticks := ticks s + 1\<rparr>"
  have f1: "forma ?s1 = forma s" by simp
  show ?thesis
  proof (cases "tlb s")
    case None
    from access_table_valida_forma [OF f1 v r, of i] show ?thesis
      using None by (simp add: access_page_def)
  next
    case (Some t)
    obtain fo t' where l: "tlb_lookup t (r, i) = (fo, t')"
      by (cases "tlb_lookup t (r, i)") auto
    let ?s2 = "?s1\<lparr>tlb := Some t'\<rparr>"
    have "list_all (\<lambda>e. fst (fst e) < contador_pid s
                          \<and> pt_has s (fst (fst e)) (snd (fst e))) (entries t)"
      using v Some by (simp add: tlb_valida_def tlb_ok_def tlb_entradas_def)
    from tlb_lookup_entries [OF l this]
    have "tlb_ok (s\<lparr>tlb := Some t'\<rparr>)"
      by (simp add: tlb_ok_def pt_has_def)
    then have v': "tlb_valida (s\<lparr>tlb := Some t'\<rparr>)"
      using v by (simp add: tlb_valida_def tlb_upd_shape)
    have f2: "forma ?s2 = forma (s\<lparr>tlb := Some t'\<rparr>)"
      by (simp add: forma_def)
    have r': "r < contador_pid (s\<lparr>tlb := Some t'\<rparr>)" using r by simp
    show ?thesis
    proof (cases fo)
      case None
      from access_table_valida_forma [OF f2 v' r', of i] show ?thesis
        using Some l None by (simp add: access_page_def)
    next
      case (Some f)
      have f3: "forma (touch_frame f ?s2) = forma (s\<lparr>tlb := Some t'\<rparr>)"
        using f2 by simp
      have f4: "forma (upd_pte r i (\<lambda>e. e\<lparr>pte_last_access := access_clock (touch_frame f ?s2)\<rparr>)
                        (touch_frame f ?s2)) = forma (s\<lparr>tlb := Some t'\<rparr>)"
        using f3 by simp
      show ?thesis
        using \<open>tlb s = Some t\<close> l Some v'
          forma_tlb_valida [OF f2] forma_contador [OF f2]
          forma_tlb_valida [OF f3] forma_contador [OF f3]
          forma_tlb_valida [OF f4] forma_contador [OF f4]
        by (simp add: access_page_def Let_def)
    qed
  qed
qed

lemma pids_ok_iff:
  "pids_ok s = ((\<forall>p\<in>set (cola_listos s). p < contador_pid s)
              \<and> (\<forall>p\<in>set (cola_bloqueados s). p < contador_pid s)
              \<and> (\<forall>p\<in>set (procesos_terminados s). p < contador_pid s)
              \<and> (\<forall>p. proceso_actual s = Some p \<longrightarrow> p < contador_pid s))"
  by (auto simp: pids_ok_def list_all_iff split: option.splits)

lemma tlb_ok_iff:
  "tlb_ok s = (\<forall>t a b f. tlb s = Some t \<longrightarrow> ((a, b), f) \<in> set (entries t) \<longrightarrow>
                 a < contador_pid s \<and> 0 \<le> b
                 \<and> b < int (length (tabla_paginas (procs s a))))"
proof (cases "tlb s")
  case None
  then show ?thesis by (simp add: tlb_ok_def tlb_entradas_def)
next
  case (Some t)
  then show ?thesis
    by (simp add: tlb_ok_def tlb_entradas_def list_all_iff pt_has_length) fastforce
qed

lemma liberar_paginas_forma [simp]: "forma (liberar_paginas es s) = forma s"
  by (simp add: forma_def)

lemma terminar_proceso_valida:
  assumes "tlb_valida s" and "r < contador_pid s"
  shows "tlb_valida (terminar_proceso r m s)
         \<and> contador_pid (terminar_proceso r m s) = contador_pid s"
  using assms
  by (auto simp: tlb_valida_def pids_ok_iff tlb_ok_iff terminar_proceso_def Let_def
      tlb_invalidate_pid_def split: option.splits)

lemma forzar_terminacion_valida:
  assumes "tlb_valida s"
  shows "tlb_valida (forzar_terminacion p s)"
proof -
  have a: "tlb_valida (s\<lparr>cola_listos := remove1 p (cola_listos s)\<rparr>)"
    and b: "tlb_valida (s\<lparr>cola_bloqueados := remove1 p (cola_bloqueados s)\<rparr>)"
    using assms
    by (auto simp: tlb_valida_def pids_ok_iff tlb_ok_iff dest: notin_set_remove1)
  have c: "p < contador_pid s"
    if "p \<in> set (cola_listos s) \<or> p \<in> set (cola_bloqueados s) \<or> proceso_actual s = Some p"
    using assms that by (auto simp: tlb_valida_def pids_ok_iff)
  have d: "tlb_valida (t\<lparr>proceso_actual := None\<rparr>)" if "tlb_valida t" for t
    using that by (auto simp: tlb_valida_def pids_ok_iff tlb_ok_iff)
  consider (listo) "p \<in> set (cola_listos s)"
    | (bloqueado) "p \<notin> set (cola_listos s)" "p \<in> set (cola_bloqueados s)"
    | (actual) "p \<notin> set (cola_listos s)" "p \<notin> set (cola_bloqueados s)"
        "proceso_actual s = Some p"
    | (ninguno) "p \<notin> set (cola_listos s)" "p \<notin> set (cola_bloqueados s)"
        "proceso_actual s \<noteq> Some p"
    by blast
  then show ?thesis
  proof cases
    case listo
    then have "p < contador_pid (s\<lparr>cola_listos := remove1 p (cola_listos s)\<rparr>)"
      using c by simp
    from terminar_proceso_valida [OF a this] show ?thesis
      using listo by (simp add: forzar_terminacion_def)
  next
    case bloqueado
    then have "p < contador_pid (s\<lparr>cola_bloqueados := remove1 p (cola_bloqueados s)\<rparr>)"
      using c by simp
    from terminar_proceso_valida [OF b this] show ?thesis
      using bloqueado by (simp add: forzar_terminacion_def)
  next
    case actual
    then have "p < contador_pid s" using c by simp
    from terminar_proceso_valida [OF assms this, of motivo_forzada]
    have "tlb_valida ((terminar_proceso p motivo_forzada s)\<lparr>proceso_actual := None\<rparr>)"
      by (simp add: d)
    then show ?thesis
      using actual by (simp add: forzar_terminacion_def)
  next
    case ninguno
    then show ?thesis using assms by (simp add: forzar_terminacion_def)
  qed
qed

lemma suspender_proceso_valida:
  assumes "tlb_valida s"
  shows "tlb_valida (suspender_proceso p s)"
  using assms
  by (auto simp: tlb_valida_def pids_ok_iff tlb_ok_iff suspender_proceso_def set_estado_def
      dest: notin_set_remove1)

lemma reanudar_proceso_valida:
  assumes "tlb_valida s"
  shows "tlb_valida (reanudar_proceso p s)"
  using assms
  by (auto simp: tlb_valida_def pids_ok_iff tlb_ok_iff reanudar_proceso_def set_estado_def
      dest: notin_set_remove1)

lemma planificar_valida:
  assumes "tlb_valida s"
  shows "tlb_valida (planificar s) \<and> contador_pid (planificar s) = contador_pid s"
  using assms
  by (auto simp: tlb_valida_def pids_ok_iff tlb_ok_iff planificar_def set_estado_def
      split: option.splits list.splits)


lemma sin_actual_valida:
  "tlb_valida t \<Longrightarrow> tlb_valida (t\<lparr>proceso_actual := None\<rparr>)"
  by (auto simp: tlb_valida_def pids_ok_iff tlb_ok_iff)

lemma state_of_case_result [simp]:
  "state_of (case res of Raise e s' \<Rightarrow> Raise e s' | Ok v s' \<Rightarrow> Ok w s') = state_of res"
  by (simp split: result.splits)

lemma crear_proceso_valida:
  assumes v: "tlb_valida s"
  shows "tlb_valida (state_of (crear_proceso nom tam prio instr s))"
proof (cases "page_kb s = 0")
  case True
  then show ?thesis using v by (simp add: crear_proceso_def)
next
  case False
  let ?p = "contador_pid s"
  let ?s1 = "s\<lparr>procs := (procs s)(?p := (new_pcb ?p nom tam prio instr (page_kb s))
                                               \<lparr>estado := LISTO\<rparr>),
                contador_pid := contador_pid s + 1,
                cola_listos := cola_listos s @ [?p]\<rparr>"
  have p1: "pids_ok ?s1"
    using v by (auto simp: tlb_valida_def pids_ok_iff less_Suc_eq)
  have "tlb_ok s" using v by (simp add: tlb_valida_def)
  then have k: "a < contador_pid s \<and> 0 \<le> b
                  \<and> b < int (length (tabla_paginas (procs s a)))"
    if "tlb s = Some t" "((a, b), f) \<in> set (entries t)" for t a b f
    using that unfolding tlb_ok_iff by blast
  have "tlb_ok ?s1"
    unfolding tlb_ok_iff
  proof (intro allI impI)
    fix t a b f
    assume "tlb ?s1 = Some t" and m: "((a, b), f) \<in> set (entries t)"
    then have "tlb s = Some t" by simp
    from k [OF this m] show "a < contador_pid ?s1 \<and> 0 \<le> b
                  \<and> b < int (length (tabla_paginas (procs ?s1 a)))"
      by simp
  qed
  with p1 have v1: "tlb_valida ?s1" by (simp add: tlb_valida_def)
  have "forma (state_of (allocate_loop ?p [0..<nat (paginas (procs ?s1 ?p))] ?s1)) = forma ?s1"
    by (rule allocate_loop_forma)
  from forma_tlb_valida [OF this] v1
  have "tlb_valida (state_of (allocate_loop ?p [0..<nat (paginas (procs ?s1 ?p))] ?s1))"
    by simp
  then show ?thesis
    using False by (simp add: crear_proceso_def allocate_pages_for_process_def Let_def)
qed

lemma crear_proceso_aleatorio_valida:
  "tlb_valida s \<Longrightarrow> tlb_valida (state_of (crear_proceso_aleatorio r1 r2 r3 s))"
  by (simp add: crear_proceso_aleatorio_def Let_def crear_proceso_valida)

lemma ejecutar_proceso_valida:
  assumes v: "tlb_valida s"
  shows "tlb_valida (state_of (ejecutar_proceso rnd s))"
proof -
  define s1 where "s1 = (if proceso_actual s = None then planificar s else s)"
  have v1: "tlb_valida s1"
    using v planificar_valida [OF v] by (simp add: s1_def)
  have e: "ejecutar_proceso rnd s =
     (case proceso_actual s1 of
           None \<Rightarrow> Ok () s1
         | Some p \<Rightarrow>
            if paginas (procs s1 p) = 0
            then Ok () ((terminar_proceso p motivo_sin_paginas s1)\<lparr>proceso_actual := None\<rparr>)
            else if paginas (procs s1 p) - 1 < 0 then Raise ValueError s1
            else
              (case access_page p (randint 0 (paginas (procs s1 p) - 1) rnd) s1 of
                 Raise e s' \<Rightarrow> Raise e s'
               | Ok hit s' \<Rightarrow>
                  let s2 = s'\<lparr>procs := (procs s')(p := (procs s' p)
                             \<lparr>instrucciones_restantes :=
                                 instrucciones_restantes (procs s' p) - 1\<rparr>)\<rparr>
                  in if instrucciones_restantes (procs s2 p) \<le> 0
                     then Ok () ((terminar_proceso p motivo_finalizacion_normal s2)
                                   \<lparr>proceso_actual := None\<rparr>)
                     else Ok () s2))"
    unfolding ejecutar_proceso_def s1_def Let_def by (rule refl)
  show ?thesis
  proof (cases "proceso_actual s1")
    case None
    then show ?thesis using v1 by (simp add: e)
  next
    case (Some q)
    have q: "q < contador_pid s1"
      using v1 Some by (simp add: tlb_valida_def pids_ok_iff)
    have t0: "tlb_valida ((terminar_proceso q m s1)\<lparr>proceso_actual := None\<rparr>)" for m
      using terminar_proceso_valida [OF v1 q, of m] by (simp add: sin_actual_valida)
    let ?a = "access_page q (randint 0 (paginas (procs s1 q) - 1) rnd) s1"
    have va: "tlb_valida (state_of ?a)" and ca: "contador_pid (state_of ?a) = contador_pid s1"
      using access_page_valida [OF v1 q] by blast+
    show ?thesis
    proof (cases ?a)
      case (Raise err s')
      then have "tlb_valida s'" using va by simp
      then show ?thesis using Some Raise v1 t0 by (simp add: e)
    next
      case (Ok hit s')
      then have vs: "tlb_valida s'" and cs: "contador_pid s' = contador_pid s1"
        using va ca by simp_all
      let ?s2 = "s'\<lparr>procs := (procs s')(q := (procs s' q)
                             \<lparr>instrucciones_restantes :=
                                 instrucciones_restantes (procs s' q) - 1\<rparr>)\<rparr>"
      have "forma ?s2 = forma s'" by (auto simp: forma_def)
      then have v2: "tlb_valida ?s2" and c2: "contador_pid ?s2 = contador_pid s'"
        using forma_tlb_valida [of ?s2 s'] vs by simp_all
      have q2: "q < contador_pid ?s2" using q cs by simp
      have t2: "tlb_valida ((terminar_proceso q m ?s2)\<lparr>proceso_actual := None\<rparr>)" for m
        using terminar_proceso_valida [OF v2 q2, of m] by (simp add: sin_actual_valida)
      show ?thesis
        using Some Ok v1 t0 v2 t2 by (simp add: e Let_def)
    qed
  qed
qed

lemma ejecutar_ciclo_valida:
  assumes v: "tlb_valida s"
  shows "tlb_valida (state_of (ejecutar_ciclo arrival rnd s))"
proof -
  let ?s1 = "s\<lparr>ticks := ticks s + 1, access_clock := access_clock s + 1\<rparr>"
  have "forma ?s1 = forma s" by simp
  then have v1: "tlb_valida ?s1" using forma_tlb_valida [of ?s1 s] v by simp
  show ?thesis
  proof (cases arrival)
    case None
    then show ?thesis using ejecutar_proceso_valida [OF v1]
      by (simp add: ejecutar_ciclo_def)
  next
    case (Some a)
    obtain r1 r2 r3 where a: "a = (r1, r2, r3)" by (cases a) auto
    have c: "tlb_valida (state_of (crear_proceso_aleatorio r1 r2 r3 ?s1))"
      using v1 by (rule crear_proceso_aleatorio_valida)
    show ?thesis
    proof (cases "crear_proceso_aleatorio r1 r2 r3 ?s1")
      case (Raise e s')
      then show ?thesis using c Some a by (simp add: ejecutar_ciclo_def)
    next
      case (Ok p s')
      then have "tlb_valida s'" using c by simp
      then show ?thesis
        using Ok Some a ejecutar_proceso_valida [of s' rnd]
        by (simp add: ejecutar_ciclo_def)
    qed
  qed
qed

lemma init_sim_valida:
  "init_sim ramkb swapkb pagekb algo tlb_on tlbsz maxmem maxinstr = Inr s \<Longrightarrow> tlb_valida s"
  by (auto simp: init_sim_def tlb_valida_def pids_ok_def tlb_ok_def tlb_entradas_def
      split: if_splits)

lemma reachable_tlb_valida: "reachable s \<Longrightarrow> tlb_valida s"
proof (induction rule: reachable.induct)
  case (boot ramkb swapkb pagekb algo tlb_on tlbsz maxmem maxinstr s)
  then show ?case by (rule init_sim_valida)
next
  case (crear s nom tam prio instr)
  then show ?case by (simp add: crear_proceso_valida)
next
  case (aleatorio s r1 r2 r3)
  then show ?case by (simp add: crear_proceso_aleatorio_valida)
next
  case (ciclo s arrival rnd)
  then show ?case by (simp add: ejecutar_ciclo_valida)
next
  case (acceso s r page_index)
  then show ?case using access_page_valida [of s r page_index] by simp
next
  case (suspender s p)
  then show ?case by (simp add: suspender_proceso_valida)
next
  case (reanudar s p)
  then show ?case by (simp add: reanudar_proceso_valida)
next
  case (forzar s p)
  then show ?case by (simp add: forzar_terminacion_valida)
qed

lemma reachable_tlb_sin_entrada:
  assumes "reachable s" and "pt_get (tabla_paginas (procs s r)) i = None"
  shows "tlb_sin_entrada s r i"
proof (cases "tlb s")
  case None
  then show ?thesis by (simp add: tlb_sin_entrada_def)
next
  case (Some t)
  have "tlb_ok s" using reachable_tlb_valida [OF assms(1)] by (simp add: tlb_valida_def)
  have "map_of (entries t) (r, i) = None"
  proof (rule ccontr)
    assume "map_of (entries t) (r, i) \<noteq> None"
    then obtain f where "map_of (entries t) (r, i) = Some f" by blast
    then have "((r, i), f) \<in> set (entries t)" by (rule map_of_SomeD)
    with \<open>tlb_ok s\<close> Some have "0 \<le> i \<and> i < int (length (tabla_paginas (procs s r)))"
      unfolding tlb_ok_iff by blast
    with assms(2) show False by (simp add: pt_get_def)
  qed
  then show ?thesis using Some by (simp add: tlb_sin_entrada_def)
qed

text \<open>
  Claim C5, amended. In every reachable state, when the page index is outside the page
  table of the process, the access returns \<open>False\<close> and changes nothing but three
  counters: the access count, the access clock and the tick counter each advance by
  one. Frames, swap, free queues, page tables, the TLB and the fault and swap counters
  are unchanged.
\<close>

theorem invalid_page_access_only_advances_clocks:
  assumes "reachable s"
    and "pt_get (tabla_paginas (procs s r)) page_index = None"
  shows "access_page r page_index s =
           Ok False (s\<lparr>total_accesos := total_accesos s + 1,
                       access_clock := access_clock s + 1,
                       ticks := ticks s + 1\<rparr>)"
  using assms(2) reachable_tlb_sin_entrada [OF assms]
  by (rule access_page_fuera_de_tabla)

lemma reachable_tlb_antes: "reachable tlb_antes"
proof -
  have "reachable (arranque 256 512 256 ''FIFO'' True)"
    by (rule reachable.boot [OF arranque_ok]) simp
  then have 1: "reachable (state_of (crear_proceso ''P1'' 256 1 10
                                      (arranque 256 512 256 ''FIFO'' True)))"
    by (rule reachable.crear)
  have "contador_pid (state_of (crear_proceso ''P1'' 256 1 10
                                      (arranque 256 512 256 ''FIFO'' True))) = 2"
    by code_simp
  then have "reachable (state_of (access_page 1 0
               (state_of (crear_proceso ''P1'' 256 1 10
                            (arranque 256 512 256 ''FIFO'' True)))))"
    by (intro reachable.acceso [OF 1]) simp_all
  then show ?thesis
    unfolding tlb_antes_def by (rule reachable.crear)
qed

theorem invalid_page_access_only_advances_clocks_witness:
  "reachable tlb_antes
   \<and> pt_get (tabla_paginas (procs tlb_antes 1)) 7 = None
   \<and> map_option entries (tlb tlb_antes) = Some [((1, 0), Some 0)]
   \<and> access_page 1 7 tlb_antes =
         Ok False (tlb_antes\<lparr>total_accesos := total_accesos tlb_antes + 1,
                     access_clock := access_clock tlb_antes + 1,
                     ticks := ticks tlb_antes + 1\<rparr>)"
proof -
  have a: "pt_get (tabla_paginas (procs tlb_antes 1)) 7 = None"
    by code_simp
  have b: "map_option entries (tlb tlb_antes) = Some [((1, 0), Some 0)]"
    by code_simp
  from invalid_page_access_only_advances_clocks [OF reachable_tlb_antes a]
    reachable_tlb_antes a b
  show ?thesis by simp
qed

end
